theory Spec2Isabelle
  imports Main "HOL-Library.Sublist" "HOL-Library.Multiset"
begin

section \<open>Text\<close>

text \<open>
  A Python \<^verbatim>\<open>str\<close> is a sequence of Unicode code points. A code point is a natural
  number here, so that the whitespace class of the regular expressions below covers the
  whole of Unicode and not only one byte. ASCII literals are written with \<open>u\<close>.
\<close>

type_synonym str = "nat list"

definition u :: "string \<Rightarrow> str" where
  "u s = map of_char s"

definition nl :: nat where "nl = 10"
definition tab :: nat where "tab = 9"

text \<open>\<^verbatim>\<open>str.isspace\<close> of one code point, which is also the class \<^verbatim>\<open>\s\<close> of \<^verbatim>\<open>re\<close>
  on \<^verbatim>\<open>str\<close> patterns.\<close>

definition isspace :: "nat \<Rightarrow> bool" where
  "isspace c = ((9 \<le> c \<and> c \<le> 13) \<or> (28 \<le> c \<and> c \<le> 32) \<or> c = 133 \<or> c = 160
     \<or> c = 5760 \<or> (8192 \<le> c \<and> c \<le> 8202) \<or> c = 8232 \<or> c = 8233 \<or> c = 8239
     \<or> c = 8287 \<or> c = 12288)"

text \<open>\<^verbatim>\<open>str.lower\<close>. Only the ASCII letters are mapped: no code point outside ASCII
  lowercases to a letter of the three suffixes the result is compared with.\<close>

definition lower_char :: "nat \<Rightarrow> nat" where
  "lower_char c = (if 65 \<le> c \<and> c \<le> 90 then c + 32 else c)"

definition lower :: "str \<Rightarrow> str" where
  "lower s = map lower_char s"

text \<open>\<^verbatim>\<open>s.split(sep)\<close> for a separator of one code point: never the empty list.\<close>

fun split_on :: "nat \<Rightarrow> str \<Rightarrow> str list" where
  "split_on sep [] = [[]]"
| "split_on sep (c # cs) =
     (if c = sep then [] # split_on sep cs
      else (case split_on sep cs of [] \<Rightarrow> [[c]] | l # ls \<Rightarrow> (c # l) # ls))"

text \<open>\<^verbatim>\<open>sep.join(xs)\<close> for the separator \<^verbatim>\<open>'\n'\<close>.\<close>

fun join_nl :: "str list \<Rightarrow> str" where
  "join_nl [] = []"
| "join_nl [l] = l"
| "join_nl (l # l' # ls) = l @ nl # join_nl (l' # ls)"

text \<open>\<^verbatim>\<open>s.replace(old, new)\<close> for a non-empty \<open>old\<close>: the occurrences are replaced from
  the left, without overlap.\<close>

fun replace :: "str \<Rightarrow> str \<Rightarrow> str \<Rightarrow> str" where
  "replace old new [] = []"
| "replace old new (c # cs) =
     (if old \<noteq> [] \<and> prefix old (c # cs)
      then new @ replace old new (drop (length old) (c # cs))
      else c # replace old new cs)"

text \<open>\<^verbatim>\<open>s.strip()\<close>.\<close>

definition strip :: "str \<Rightarrow> str" where
  "strip s = rev (dropWhile isspace (rev (dropWhile isspace s)))"

section \<open>Paths\<close>

text \<open>\<^verbatim>\<open>Path(p).parts\<close> on a POSIX system: the root, when the path has one, then the
  components, without the empty ones and without \<^verbatim>\<open>.\<close>.\<close>

definition path_root :: "str \<Rightarrow> str list" where
  "path_root p =
     (if prefix (u ''//'') p \<and> \<not> prefix (u ''///'') p then [u ''//'']
      else if prefix (u ''/'') p then [u ''/'']
      else [])"

definition path_tail :: "str \<Rightarrow> str list" where
  "path_tail p = filter (\<lambda>x. x \<noteq> [] \<and> x \<noteq> u ''.'') (split_on 47 p)"

definition path_parts :: "str \<Rightarrow> str list" where
  "path_parts p = path_root p @ path_tail p"

text \<open>\<^verbatim>\<open>Path(p).name\<close>: the last component, or the empty string.\<close>

definition path_name :: "str \<Rightarrow> str" where
  "path_name p = (case path_tail p of [] \<Rightarrow> [] | x # xs \<Rightarrow> last (x # xs))"

text \<open>\<^verbatim>\<open>name.rfind('.')\<close>: the index of the last dot, if there is one.\<close>

fun rfind_dot :: "str \<Rightarrow> nat option" where
  "rfind_dot [] = None"
| "rfind_dot (c # cs) =
     (case rfind_dot cs of
        Some i \<Rightarrow> Some (Suc i)
      | None \<Rightarrow> if c = 46 then Some 0 else None)"

text \<open>\<^verbatim>\<open>Path(p).suffix\<close>: the name from its last dot, unless that dot is the first or
  the last code point of the name.\<close>

definition path_suffix :: "str \<Rightarrow> str" where
  "path_suffix p =
     (let name = path_name p in
      case rfind_dot name of
        None \<Rightarrow> []
      | Some i \<Rightarrow> if 0 < i \<and> i + 1 < length name then drop i name else [])"

section \<open>The file classifier (smart\_project\_import.py)\<close>

definition excluded_patterns :: "str list" where
  "excluded_patterns = map u
     [''Test'', ''UITest'', ''Watch'', ''Widget'', ''Bridge'',
      ''build_'', ''audit.'', ''.log'', ''README'',
      ''Bridging-Header'', ''sample'', ''Sample'']"

definition excluded_dirs :: "str list" where
  "excluded_dirs = map u
     [''VitalSenseTests'', ''VitalSenseUITests'',
      ''VitalSenseTests'', ''VitalSenseUITests'',
      ''VitalSense'', ''VitalSenseWatch'',
      ''VitalSenseWidgets'', ''Generated'', ''scripts'']"

definition module_dirs :: "str list" where
  "module_dirs = map u [''Core'', ''Features'', ''UI'', ''Configuration'']"

definition main_app_files :: "str list" where
  "main_app_files = map u
     [''VitalSenseApp.swift'', ''VitalSenseBrand.swift'', ''VitalSenseComponents.swift'']"

text \<open>\<^verbatim>\<open>should_include_file\<close>: the two exclusion loops, then the branch on the
  lowercased suffix of the file name.\<close>

definition should_include_file :: "str \<Rightarrow> str \<Rightarrow> bool" where
  "should_include_file file_path file_name =
     (let parts = path_parts file_path in
      if list_ex (\<lambda>excluded_dir. excluded_dir \<in> set parts) excluded_dirs then False
      else if list_ex (\<lambda>pattern. sublist pattern file_name) excluded_patterns then False
      else
        let suffix = lower (path_suffix file_name) in
        if suffix = u ''.swift'' then
          (if list_ex (\<lambda>part. part \<in> set module_dirs) parts then True
           else if file_name \<in> set main_app_files then True
           else False)
        else if suffix \<in> set [u ''.plist''] then
          file_name = u ''Info.plist''
          \<and> \<not> sublist (u ''VitalSense'') (replace (u ''VitalSense/'') [] file_path)
        else if suffix = u ''.entitlements'' then
          file_name = u ''VitalSense.entitlements''
        else if file_name = u ''Assets.xcassets'' then
          \<not> sublist (u ''VitalSense/'') file_path \<or> count_list file_path 47 \<le> 1
        else False)"

text \<open>One entry of the list \<^verbatim>\<open>scan_smart_files\<close> returns: a dictionary with the keys
  \<^verbatim>\<open>path\<close>, \<^verbatim>\<open>name\<close>, \<^verbatim>\<open>type\<close> and \<^verbatim>\<open>category\<close>.\<close>

record file_info =
  path :: str
  name :: str
  ftype :: str
  category :: str




section \<open>The identifier allocator (smart\_project\_import.py)\<close>

text \<open>The fields of \<^verbatim>\<open>SmartXcodeProjectBuilder\<close> that the synthesis reads and writes:
  the counter and the dictionary from a file's path to its reference identifier.\<close>

record builder =
  id_counter :: nat
  file_refs :: "str \<rightharpoonup> str"


text \<open>The format \<^verbatim>\<open>022X\<close>: upper-case hexadecimal, padded with zeros on the left
  to at least 22 digits. Python's integers are unbounded, and a number of more than
  22 digits is printed in full.\<close>

definition hex_digit :: "nat \<Rightarrow> nat" where
  "hex_digit d = (if d < 10 then 48 + d else 55 + d)"

fun to_hex :: "nat \<Rightarrow> str" where
  "to_hex n = (if n < 16 then [hex_digit n] else to_hex (n div 16) @ [hex_digit (n mod 16)])"

declare to_hex.simps [simp del]

definition format_022X :: "nat \<Rightarrow> str" where
  "format_022X n = replicate (22 - length (to_hex n)) 48 @ to_hex n"

text \<open>The identifier of a counter value: the f-string \<^verbatim>\<open>f"AB{n:022X}"\<close>.\<close>

definition id_string :: "nat \<Rightarrow> str" where
  "id_string n = u ''AB'' @ format_022X n"

text \<open>\<^verbatim>\<open>generate_id\<close>: increment the counter, then format it.\<close>

definition generate_id :: "builder \<Rightarrow> str \<times> builder" where
  "generate_id b =
     (let b' = b\<lparr>id_counter := id_counter b + 1\<rparr>
      in (id_string (id_counter b'), b'))"

section \<open>The graph builder (smart\_project\_import.py)\<close>

definition tabs :: "nat \<Rightarrow> str" where
  "tabs k = replicate k tab"

text \<open>The fifteen identifiers \<^verbatim>\<open>build_smart_project\<close> allocates first.\<close>

record project_ids =
  main_group_id :: str
  products_group_id :: str
  vitalsense_group_id :: str
  main_target_id :: str
  main_product_id :: str
  sources_phase_id :: str
  frameworks_phase_id :: str
  resources_phase_id :: str
  target_config_list_id :: str
  project_config_list_id :: str
  target_debug_config_id :: str
  target_release_config_id :: str
  project_debug_config_id :: str
  project_release_config_id :: str
  project_object_id :: str

definition generate_project_ids :: "builder \<Rightarrow> project_ids \<times> builder" where
  "generate_project_ids b0 =
     (let (main_group, b) = generate_id b0;
          (products_group, b) = generate_id b;
          (vitalsense_group, b) = generate_id b;
          (main_target, b) = generate_id b;
          (main_product, b) = generate_id b;
          (sources_phase, b) = generate_id b;
          (frameworks_phase, b) = generate_id b;
          (resources_phase, b) = generate_id b;
          (target_config_list, b) = generate_id b;
          (project_config_list, b) = generate_id b;
          (target_debug_config, b) = generate_id b;
          (target_release_config, b) = generate_id b;
          (project_debug_config, b) = generate_id b;
          (project_release_config, b) = generate_id b;
          (project_object, b) = generate_id b
      in (\<lparr>main_group_id = main_group, products_group_id = products_group,
           vitalsense_group_id = vitalsense_group, main_target_id = main_target,
           main_product_id = main_product, sources_phase_id = sources_phase,
           frameworks_phase_id = frameworks_phase, resources_phase_id = resources_phase,
           target_config_list_id = target_config_list,
           project_config_list_id = project_config_list,
           target_debug_config_id = target_debug_config,
           target_release_config_id = target_release_config,
           project_debug_config_id = project_debug_config,
           project_release_config_id = project_release_config,
           project_object_id = project_object\<rparr>, b))"

text \<open>The lists of lines \<^verbatim>\<open>build_smart_project\<close> fills before it formats the
  manifest.\<close>

record sections =
  file_references :: "str list"
  build_file_entries :: "str list"
  source_build_files :: "str list"
  resource_build_files :: "str list"
  file_children :: "str list"

text \<open>The lines the loop over the files appends.\<close>

definition product_reference_line :: "str \<Rightarrow> str" where
  "product_reference_line product_id =
     tabs 2 @ product_id @ u '' /* VitalSense.app */ = {isa = PBXFileReference; explicitFileType = wrapper.application; includeInIndex = 0; path = VitalSense.app; sourceTree = BUILT_PRODUCTS_DIR; };''"

definition file_reference_line :: "str \<Rightarrow> file_info \<Rightarrow> str" where
  \<open>file_reference_line file_ref_id file_info =
     tabs 2 @ file_ref_id @ u '' /* '' @ name file_info
     @ u '' */ = {isa = PBXFileReference; lastKnownFileType = '' @ ftype file_info
     @ u ''; path = "'' @ path file_info @ u ''"; sourceTree = "<group>"; };''\<close>

definition build_file_line :: "str \<Rightarrow> str \<Rightarrow> file_info \<Rightarrow> str \<Rightarrow> str" where
  "build_file_line build_file_id file_ref_id file_info phase =
     tabs 2 @ build_file_id @ u '' /* '' @ name file_info @ u '' in '' @ phase
     @ u '' */ = {isa = PBXBuildFile; fileRef = '' @ file_ref_id @ u '' /* ''
     @ name file_info @ u '' */; };''"

definition phase_member_line :: "str \<Rightarrow> file_info \<Rightarrow> str \<Rightarrow> str" where
  "phase_member_line build_file_id file_info phase =
     tabs 4 @ build_file_id @ u '' /* '' @ name file_info @ u '' in '' @ phase @ u '' */,''"

definition file_child_line :: "str \<Rightarrow> file_info \<Rightarrow> str" where
  "file_child_line file_ref_id file_info =
     tabs 4 @ file_ref_id @ u '' /* '' @ name file_info @ u '' */,''"

text \<open>The body of the loop \<^verbatim>\<open>for file_info in files\<close>: a file reference for every
  file, a build file in the Sources phase for the category \<^verbatim>\<open>source\<close>, one in the
  Resources phase for the category \<^verbatim>\<open>resource\<close>, and nothing more for any other
  category.\<close>

definition add_file :: "builder \<times> sections \<Rightarrow> file_info \<Rightarrow> builder \<times> sections" where
  "add_file bs file_info =
     (case bs of (b, s) \<Rightarrow>
      let (file_ref_id, b) = generate_id b;
          b = b\<lparr>file_refs := (file_refs b)(path file_info \<mapsto> file_ref_id)\<rparr>;
          s = s\<lparr>file_references :=
                 file_references s @ [file_reference_line file_ref_id file_info]\<rparr>
      in if category file_info = u ''source'' then
           (let (build_file_id, b) = generate_id b
            in (b, s\<lparr>build_file_entries := build_file_entries s
                        @ [build_file_line build_file_id file_ref_id file_info (u ''Sources'')],
                      source_build_files := source_build_files s
                        @ [phase_member_line build_file_id file_info (u ''Sources'')]\<rparr>))
         else if category file_info = u ''resource'' then
           (let (build_file_id, b) = generate_id b
            in (b, s\<lparr>build_file_entries := build_file_entries s
                        @ [build_file_line build_file_id file_ref_id file_info (u ''Resources'')],
                      resource_build_files := resource_build_files s
                        @ [phase_member_line build_file_id file_info (u ''Resources'')]\<rparr>))
         else (b, s))"

definition add_files :: "builder \<times> sections \<Rightarrow> file_info list \<Rightarrow> builder \<times> sections" where
  "add_files bs files = foldl add_file bs files"

text \<open>The loop that builds the children of the content group. The lookup
  \<^verbatim>\<open>self.file_refs[f["path"]]\<close> raises \<^verbatim>\<open>KeyError\<close> on a missing path: that is the
  value \<open>None\<close>.\<close>

fun build_file_children :: "builder \<Rightarrow> file_info list \<Rightarrow> str list option" where
  "build_file_children b [] = Some []"
| "build_file_children b (f # fs) =
     (case file_refs b (path f) of
        None \<Rightarrow> None
      | Some file_ref_id \<Rightarrow>
          (case build_file_children b fs of
             None \<Rightarrow> None
           | Some lines \<Rightarrow> Some (file_child_line file_ref_id f # lines)))"

text \<open>The sections of the manifest, in the order of the template. An interpolated list
  is joined with newlines into one element.\<close>

definition manifest_header :: "str list" where
  \<open>manifest_header =
     [u ''// !$*UTF8*$!'',
      u ''{'',
      tabs 1 @ u ''archiveVersion = 1;'',
      tabs 1 @ u ''classes = {'',
      tabs 1 @ u ''};'',
      tabs 1 @ u ''objectVersion = 77;'',
      tabs 1 @ u ''objects = {'',
      []]\<close>

definition build_file_section :: "sections \<Rightarrow> str list" where
  \<open>build_file_section s =
     [u ''/* Begin PBXBuildFile section */'',
      join_nl (build_file_entries s),
      u ''/* End PBXBuildFile section */'']\<close>

definition file_reference_section :: "sections \<Rightarrow> str list" where
  \<open>file_reference_section s =
     [u ''/* Begin PBXFileReference section */'',
      join_nl (file_references s),
      u ''/* End PBXFileReference section */'']\<close>

definition frameworks_phase_section :: "project_ids \<Rightarrow> str list" where
  \<open>frameworks_phase_section i =
     [u ''/* Begin PBXFrameworksBuildPhase section */'',
      tabs 2 @ frameworks_phase_id i @ u '' /* Frameworks */ = {'',
      tabs 3 @ u ''isa = PBXFrameworksBuildPhase;'',
      tabs 3 @ u ''buildActionMask = 2147483647;'',
      tabs 3 @ u ''files = ('',
      tabs 3 @ u '');'',
      tabs 3 @ u ''runOnlyForDeploymentPostprocessing = 0;'',
      tabs 2 @ u ''};'',
      u ''/* End PBXFrameworksBuildPhase section */'']\<close>

definition group_section :: "project_ids \<Rightarrow> sections \<Rightarrow> str list" where
  \<open>group_section i s =
     [u ''/* Begin PBXGroup section */'',
      tabs 2 @ main_group_id i @ u '' = {'',
      tabs 3 @ u ''isa = PBXGroup;'',
      tabs 3 @ u ''children = ('',
      tabs 4 @ vitalsense_group_id i @ u '' /* VitalSense */,'',
      tabs 4 @ products_group_id i @ u '' /* Products */,'',
      tabs 3 @ u '');'',
      tabs 3 @ u ''sourceTree = "<group>";'',
      tabs 2 @ u ''};'',
      tabs 2 @ products_group_id i @ u '' /* Products */ = {'',
      tabs 3 @ u ''isa = PBXGroup;'',
      tabs 3 @ u ''children = ('',
      tabs 4 @ main_product_id i @ u '' /* VitalSense.app */,'',
      tabs 3 @ u '');'',
      tabs 3 @ u ''name = Products;'',
      tabs 3 @ u ''sourceTree = "<group>";'',
      tabs 2 @ u ''};'',
      tabs 2 @ vitalsense_group_id i @ u '' /* VitalSense */ = {'',
      tabs 3 @ u ''isa = PBXGroup;'',
      tabs 3 @ u ''children = ('',
      join_nl (file_children s),
      tabs 3 @ u '');'',
      tabs 3 @ u ''path = VitalSense;'',
      tabs 3 @ u ''sourceTree = "<group>";'',
      tabs 2 @ u ''};'',
      u ''/* End PBXGroup section */'']\<close>

definition native_target_section :: "project_ids \<Rightarrow> str list" where
  \<open>native_target_section i =
     [u ''/* Begin PBXNativeTarget section */'',
      tabs 2 @ main_target_id i @ u '' /* VitalSense */ = {'',
      tabs 3 @ u ''isa = PBXNativeTarget;'',
      tabs 3 @ u ''buildConfigurationList = '' @ target_config_list_id i @ u '' /* Build configuration list for PBXNativeTarget "VitalSense" */;'',
      tabs 3 @ u ''buildPhases = ('',
      tabs 4 @ sources_phase_id i @ u '' /* Sources */,'',
      tabs 4 @ frameworks_phase_id i @ u '' /* Frameworks */,'',
      tabs 4 @ resources_phase_id i @ u '' /* Resources */,'',
      tabs 3 @ u '');'',
      tabs 3 @ u ''buildRules = ('',
      tabs 3 @ u '');'',
      tabs 3 @ u ''dependencies = ('',
      tabs 3 @ u '');'',
      tabs 3 @ u ''name = VitalSense;'',
      tabs 3 @ u ''productName = VitalSense;'',
      tabs 3 @ u ''productReference = '' @ main_product_id i @ u '' /* VitalSense.app */;'',
      tabs 3 @ u ''productType = "com.apple.product-type.application";'',
      tabs 2 @ u ''};'',
      u ''/* End PBXNativeTarget section */'']\<close>

definition project_section :: "project_ids \<Rightarrow> str list" where
  \<open>project_section i =
     [u ''/* Begin PBXProject section */'',
      tabs 2 @ project_object_id i @ u '' /* Project object */ = {'',
      tabs 3 @ u ''isa = PBXProject;'',
      tabs 3 @ u ''attributes = {'',
      tabs 4 @ u ''BuildIndependentTargetsInParallel = 1;'',
      tabs 4 @ u ''LastSwiftUpdateCheck = 1600;'',
      tabs 4 @ u ''LastUpgradeCheck = 1600;'',
      tabs 4 @ u ''TargetAttributes = {'',
      tabs 5 @ main_target_id i @ u '' = {'',
      tabs 6 @ u ''CreatedOnToolsVersion = 16.0;'',
      tabs 5 @ u ''};'',
      tabs 4 @ u ''};'',
      tabs 3 @ u ''};'',
      tabs 3 @ u ''buildConfigurationList = '' @ project_config_list_id i @ u '' /* Build configuration list for PBXProject "VitalSense" */;'',
      tabs 3 @ u ''developmentRegion = en;'',
      tabs 3 @ u ''hasScannedForEncodings = 0;'',
      tabs 3 @ u ''knownRegions = ('',
      tabs 4 @ u ''en,'',
      tabs 4 @ u ''Base,'',
      tabs 3 @ u '');'',
      tabs 3 @ u ''mainGroup = '' @ main_group_id i @ u '';'',
      tabs 3 @ u ''productRefGroup = '' @ products_group_id i @ u '' /* Products */;'',
      tabs 3 @ u ''projectDirPath = "";'',
      tabs 3 @ u ''projectRoot = "";'',
      tabs 3 @ u ''targets = ('',
      tabs 4 @ main_target_id i @ u '' /* VitalSense */,'',
      tabs 3 @ u '');'',
      tabs 2 @ u ''};'',
      u ''/* End PBXProject section */'']\<close>

definition resources_phase_section :: "project_ids \<Rightarrow> sections \<Rightarrow> str list" where
  \<open>resources_phase_section i s =
     [u ''/* Begin PBXResourcesBuildPhase section */'',
      tabs 2 @ resources_phase_id i @ u '' /* Resources */ = {'',
      tabs 3 @ u ''isa = PBXResourcesBuildPhase;'',
      tabs 3 @ u ''buildActionMask = 2147483647;'',
      tabs 3 @ u ''files = ('',
      join_nl (resource_build_files s),
      tabs 3 @ u '');'',
      tabs 3 @ u ''runOnlyForDeploymentPostprocessing = 0;'',
      tabs 2 @ u ''};'',
      u ''/* End PBXResourcesBuildPhase section */'']\<close>

definition sources_phase_section :: "project_ids \<Rightarrow> sections \<Rightarrow> str list" where
  \<open>sources_phase_section i s =
     [u ''/* Begin PBXSourcesBuildPhase section */'',
      tabs 2 @ sources_phase_id i @ u '' /* Sources */ = {'',
      tabs 3 @ u ''isa = PBXSourcesBuildPhase;'',
      tabs 3 @ u ''buildActionMask = 2147483647;'',
      tabs 3 @ u ''files = ('',
      join_nl (source_build_files s),
      tabs 3 @ u '');'',
      tabs 3 @ u ''runOnlyForDeploymentPostprocessing = 0;'',
      tabs 2 @ u ''};'',
      u ''/* End PBXSourcesBuildPhase section */'']\<close>

definition build_configuration_section :: "project_ids \<Rightarrow> str list" where
  \<open>build_configuration_section i =
     [u ''/* Begin XCBuildConfiguration section */'',
      tabs 2 @ project_debug_config_id i @ u '' /* Debug */ = {'',
      tabs 3 @ u ''isa = XCBuildConfiguration;'',
      tabs 3 @ u ''buildSettings = {'',
      tabs 4 @ u ''ALWAYS_SEARCH_USER_PATHS = NO;'',
      tabs 4 @ u ''CLANG_ANALYZER_NONNULL = YES;'',
      tabs 4 @ u ''CLANG_ANALYZER_NUMBER_OBJECT_CONVERSION = YES_AGGRESSIVE;'',
      tabs 4 @ u ''CLANG_CXX_LANGUAGE_STANDARD = "gnu++20";'',
      tabs 4 @ u ''CLANG_ENABLE_MODULES = YES;'',
      tabs 4 @ u ''CLANG_ENABLE_OBJC_ARC = YES;'',
      tabs 4 @ u ''CLANG_ENABLE_OBJC_WEAK = YES;'',
      tabs 4 @ u ''CLANG_WARN_DOCUMENTATION_COMMENTS = YES;'',
      tabs 4 @ u ''COPY_PHASE_STRIP = NO;'',
      tabs 4 @ u ''DEBUG_INFORMATION_FORMAT = dwarf;'',
      tabs 4 @ u ''ENABLE_STRICT_OBJC_MSGSEND = YES;'',
      tabs 4 @ u ''ENABLE_TESTABILITY = YES;'',
      tabs 4 @ u ''GCC_C_LANGUAGE_STANDARD = gnu17;'',
      tabs 4 @ u ''GCC_DYNAMIC_NO_PIC = NO;'',
      tabs 4 @ u ''GCC_NO_COMMON_BLOCKS = YES;'',
      tabs 4 @ u ''GCC_OPTIMIZATION_LEVEL = 0;'',
      tabs 4 @ u ''GCC_PREPROCESSOR_DEFINITIONS = ('',
      tabs 5 @ u ''"DEBUG=1",'',
      tabs 5 @ u ''"$$(inherited)",'',
      tabs 4 @ u '');'',
      tabs 4 @ u ''IPHONEOS_DEPLOYMENT_TARGET = 18.0;'',
      tabs 4 @ u ''MTL_ENABLE_DEBUG_INFO = INCLUDE_SOURCE;'',
      tabs 4 @ u ''MTL_FAST_MATH = YES;'',
      tabs 4 @ u ''ONLY_ACTIVE_ARCH = YES;'',
      tabs 4 @ u ''SDKROOT = iphoneos;'',
      tabs 4 @ u ''SWIFT_ACTIVE_COMPILATION_CONDITIONS = "DEBUG $$(inherited)";'',
      tabs 4 @ u ''SWIFT_OPTIMIZATION_LEVEL = "-Onone";'',
      tabs 4 @ u ''SWIFT_VERSION = 6.0;'',
      tabs 3 @ u ''};'',
      tabs 3 @ u ''name = Debug;'',
      tabs 2 @ u ''};'',
      tabs 2 @ project_release_config_id i @ u '' /* Release */ = {'',
      tabs 3 @ u ''isa = XCBuildConfiguration;'',
      tabs 3 @ u ''buildSettings = {'',
      tabs 4 @ u ''ALWAYS_SEARCH_USER_PATHS = NO;'',
      tabs 4 @ u ''CLANG_ANALYZER_NONNULL = YES;'',
      tabs 4 @ u ''CLANG_ANALYZER_NUMBER_OBJECT_CONVERSION = YES_AGGRESSIVE;'',
      tabs 4 @ u ''CLANG_CXX_LANGUAGE_STANDARD = "gnu++20";'',
      tabs 4 @ u ''CLANG_ENABLE_MODULES = YES;'',
      tabs 4 @ u ''CLANG_ENABLE_OBJC_ARC = YES;'',
      tabs 4 @ u ''CLANG_ENABLE_OBJC_WEAK = YES;'',
      tabs 4 @ u ''CLANG_WARN_DOCUMENTATION_COMMENTS = YES;'',
      tabs 4 @ u ''COPY_PHASE_STRIP = NO;'',
      tabs 4 @ u ''DEBUG_INFORMATION_FORMAT = "dwarf-with-dsym";'',
      tabs 4 @ u ''ENABLE_NS_ASSERTIONS = NO;'',
      tabs 4 @ u ''ENABLE_STRICT_OBJC_MSGSEND = YES;'',
      tabs 4 @ u ''GCC_C_LANGUAGE_STANDARD = gnu17;'',
      tabs 4 @ u ''GCC_NO_COMMON_BLOCKS = YES;'',
      tabs 4 @ u ''IPHONEOS_DEPLOYMENT_TARGET = 18.0;'',
      tabs 4 @ u ''MTL_ENABLE_DEBUG_INFO = NO;'',
      tabs 4 @ u ''MTL_FAST_MATH = YES;'',
      tabs 4 @ u ''SDKROOT = iphoneos;'',
      tabs 4 @ u ''SWIFT_COMPILATION_MODE = wholemodule;'',
      tabs 4 @ u ''SWIFT_VERSION = 6.0;'',
      tabs 4 @ u ''VALIDATE_PRODUCT = YES;'',
      tabs 3 @ u ''};'',
      tabs 3 @ u ''name = Release;'',
      tabs 2 @ u ''};'',
      tabs 2 @ target_debug_config_id i @ u '' /* Debug */ = {'',
      tabs 3 @ u ''isa = XCBuildConfiguration;'',
      tabs 3 @ u ''buildSettings = {'',
      tabs 4 @ u ''ASSETCATALOG_COMPILER_APPICON_NAME = AppIcon;'',
      tabs 4 @ u ''ASSETCATALOG_COMPILER_GLOBAL_ACCENT_COLOR_NAME = AccentColor;'',
      tabs 4 @ u ''CODE_SIGN_ENTITLEMENTS = VitalSense/VitalSense.entitlements;'',
      tabs 4 @ u ''CODE_SIGN_STYLE = Automatic;'',
      tabs 4 @ u ''CURRENT_PROJECT_VERSION = 1;'',
      tabs 4 @ u ''GENERATE_INFOPLIST_FILE = NO;'',
      tabs 4 @ u ''INFOPLIST_FILE = VitalSense/Info.plist;'',
      tabs 4 @ u ''INFOPLIST_KEY_UIApplicationSupportsIndirectInputEvents = YES;'',
      tabs 4 @ u ''INFOPLIST_KEY_UILaunchStoryboardName = LaunchScreen;'',
      tabs 4 @ u ''INFOPLIST_KEY_UISupportedInterfaceOrientations_iPad = "UIInterfaceOrientationPortrait UIInterfaceOrientationPortraitUpsideDown UIInterfaceOrientationLandscapeLeft UIInterfaceOrientationLandscapeRight";'',
      tabs 4 @ u ''INFOPLIST_KEY_UISupportedInterfaceOrientations_iPhone = "UIInterfaceOrientationPortrait UIInterfaceOrientationLandscapeLeft UIInterfaceOrientationLandscapeRight";'',
      tabs 4 @ u ''LD_RUNPATH_SEARCH_PATHS = ('',
      tabs 5 @ u ''"$$(inherited)",'',
      tabs 5 @ u ''"@executable_path/Frameworks",'',
      tabs 4 @ u '');'',
      tabs 4 @ u ''MARKETING_VERSION = 1.0;'',
      tabs 4 @ u ''PRODUCT_BUNDLE_IDENTIFIER = com.vitalsense.app;'',
      tabs 4 @ u ''PRODUCT_NAME = "$$(TARGET_NAME)";'',
      tabs 4 @ u ''SWIFT_EMIT_LOC_STRINGS = YES;'',
      tabs 4 @ u ''TARGETED_DEVICE_FAMILY = "1,2";'',
      tabs 3 @ u ''};'',
      tabs 3 @ u ''name = Debug;'',
      tabs 2 @ u ''};'',
      tabs 2 @ target_release_config_id i @ u '' /* Release */ = {'',
      tabs 3 @ u ''isa = XCBuildConfiguration;'',
      tabs 3 @ u ''buildSettings = {'',
      tabs 4 @ u ''ASSETCATALOG_COMPILER_APPICON_NAME = AppIcon;'',
      tabs 4 @ u ''ASSETCATALOG_COMPILER_GLOBAL_ACCENT_COLOR_NAME = AccentColor;'',
      tabs 4 @ u ''CODE_SIGN_ENTITLEMENTS = VitalSense/VitalSense.entitlements;'',
      tabs 4 @ u ''CODE_SIGN_STYLE = Automatic;'',
      tabs 4 @ u ''CURRENT_PROJECT_VERSION = 1;'',
      tabs 4 @ u ''GENERATE_INFOPLIST_FILE = NO;'',
      tabs 4 @ u ''INFOPLIST_FILE = VitalSense/Info.plist;'',
      tabs 4 @ u ''INFOPLIST_KEY_UIApplicationSupportsIndirectInputEvents = YES;'',
      tabs 4 @ u ''INFOPLIST_KEY_UILaunchStoryboardName = LaunchScreen;'',
      tabs 4 @ u ''INFOPLIST_KEY_UISupportedInterfaceOrientations_iPad = "UIInterfaceOrientationPortrait UIInterfaceOrientationPortraitUpsideDown UIInterfaceOrientationLandscapeLeft UIInterfaceOrientationLandscapeRight";'',
      tabs 4 @ u ''INFOPLIST_KEY_UISupportedInterfaceOrientations_iPhone = "UIInterfaceOrientationPortrait UIInterfaceOrientationLandscapeLeft UIInterfaceOrientationLandscapeRight";'',
      tabs 4 @ u ''LD_RUNPATH_SEARCH_PATHS = ('',
      tabs 5 @ u ''"$$(inherited)",'',
      tabs 5 @ u ''"@executable_path/Frameworks",'',
      tabs 4 @ u '');'',
      tabs 4 @ u ''MARKETING_VERSION = 1.0;'',
      tabs 4 @ u ''PRODUCT_BUNDLE_IDENTIFIER = com.vitalsense.app;'',
      tabs 4 @ u ''PRODUCT_NAME = "$$(TARGET_NAME)";'',
      tabs 4 @ u ''SWIFT_EMIT_LOC_STRINGS = YES;'',
      tabs 4 @ u ''TARGETED_DEVICE_FAMILY = "1,2";'',
      tabs 3 @ u ''};'',
      tabs 3 @ u ''name = Release;'',
      tabs 2 @ u ''};'',
      u ''/* End XCBuildConfiguration section */'']\<close>

definition configuration_list_section :: "project_ids \<Rightarrow> str list" where
  \<open>configuration_list_section i =
     [u ''/* Begin XCConfigurationList section */'',
      tabs 2 @ project_config_list_id i @ u '' /* Build configuration list for PBXProject "VitalSense" */ = {'',
      tabs 3 @ u ''isa = XCConfigurationList;'',
      tabs 3 @ u ''buildConfigurations = ('',
      tabs 4 @ project_debug_config_id i @ u '' /* Debug */,'',
      tabs 4 @ project_release_config_id i @ u '' /* Release */,'',
      tabs 3 @ u '');'',
      tabs 3 @ u ''defaultConfigurationIsVisible = 0;'',
      tabs 3 @ u ''defaultConfigurationName = Release;'',
      tabs 2 @ u ''};'',
      tabs 2 @ target_config_list_id i @ u '' /* Build configuration list for PBXNativeTarget "VitalSense" */ = {'',
      tabs 3 @ u ''isa = XCConfigurationList;'',
      tabs 3 @ u ''buildConfigurations = ('',
      tabs 4 @ target_debug_config_id i @ u '' /* Debug */,'',
      tabs 4 @ target_release_config_id i @ u '' /* Release */,'',
      tabs 3 @ u '');'',
      tabs 3 @ u ''defaultConfigurationIsVisible = 0;'',
      tabs 3 @ u ''defaultConfigurationName = Release;'',
      tabs 2 @ u ''};'',
      u ''/* End XCConfigurationList section */'']\<close>

definition manifest_footer :: "project_ids \<Rightarrow> str list" where
  \<open>manifest_footer i =
     [[],
      tabs 1 @ u ''};'',
      tabs 1 @ u ''rootObject = '' @ project_object_id i @ u '' /* Project object */;'',
      u ''}'']\<close>

definition project_content :: "project_ids \<Rightarrow> sections \<Rightarrow> str" where
  "project_content i s = join_nl (manifest_header
       @ build_file_section s
       @ [[]]
       @ file_reference_section s
       @ [[]]
       @ frameworks_phase_section i
       @ [[]]
       @ group_section i s
       @ [[]]
       @ native_target_section i
       @ [[]]
       @ project_section i
       @ [[]]
       @ resources_phase_section i s
       @ [[]]
       @ sources_phase_section i s
       @ [[]]
       @ build_configuration_section i
       @ [[]]
       @ configuration_list_section i
       @ manifest_footer i)"

text \<open>\<^verbatim>\<open>build_smart_project\<close>: the text of the manifest and the builder afterwards, or
  \<open>None\<close> for the \<^verbatim>\<open>KeyError\<close> of the children loop.\<close>

definition build_sections :: "builder \<Rightarrow> file_info list \<Rightarrow> project_ids \<times> builder \<times> sections" where
  "build_sections b0 files =
     (let (i, b) = generate_project_ids b0;
          s = \<lparr>file_references = [product_reference_line (main_product_id i)],
               build_file_entries = [], source_build_files = [],
               resource_build_files = [], file_children = []\<rparr>;
          (b, s) = add_files (b, s) files
      in (i, b, s))"

definition build_smart_project :: "builder \<Rightarrow> file_info list \<Rightarrow> (str \<times> builder) option" where
  "build_smart_project b0 files =
     (case build_sections b0 files of (i, b, s) \<Rightarrow>
      (case build_file_children b files of
         None \<Rightarrow> None
       | Some children \<Rightarrow> Some (project_content i (s\<lparr>file_children := children\<rparr>), b)))"

section \<open>Regular expressions\<close>

text \<open>
  The fragment of Python's \<^verbatim>\<open>re\<close> that the repair engine uses, with the semantics of
  its backtracking matcher: a pattern is a sequence of items, each alternative is tried
  in priority order (a greedy repetition takes one more character first, a lazy one
  tries the rest of the pattern first), and the first way to match the whole sequence
  wins.
\<close>

datatype cls =
    Space   \<comment> \<open>\<^verbatim>\<open>\s\<close>\<close>
  | Hex     \<comment> \<open>\<^verbatim>\<open>[A-F0-9]\<close>\<close>
  | Dot     \<comment> \<open>\<^verbatim>\<open>.\<close>: anything but a newline\<close>
  | Lit nat \<comment> \<open>one literal character\<close>

fun in_cls :: "cls \<Rightarrow> nat \<Rightarrow> bool" where
  "in_cls Space c = isspace c"
| "in_cls Hex c = ((65 \<le> c \<and> c \<le> 70) \<or> (48 \<le> c \<and> c \<le> 57))"
| "in_cls Dot c = (c \<noteq> nl)"
| "in_cls (Lit x) c = (c = x)"

datatype re =
    One cls          \<comment> \<open>one character of the class\<close>
  | Star cls         \<comment> \<open>\<^verbatim>\<open>x*\<close>, greedy\<close>
  | Plus cls         \<comment> \<open>\<^verbatim>\<open>x+\<close>, greedy\<close>
  | PlusLazy cls     \<comment> \<open>\<^verbatim>\<open>x+?\<close>, lazy\<close>
  | Opt "re list"    \<comment> \<open>\<^verbatim>\<open>(...)?\<close>, greedy\<close>
  | Open nat         \<comment> \<open>the opening parenthesis of group \<open>n\<close>\<close>
  | Close nat        \<comment> \<open>the closing parenthesis of group \<open>n\<close>\<close>

fun re_size :: "re \<Rightarrow> nat" where
  "re_size (Opt rs) = Suc (sum_list (map re_size rs))"
| "re_size r = 1"

text \<open>The groups of a match in progress: where each open group started (as the input
  that was left there) and the text of each closed group. A group that took no part in
  the match has no text: Python's \<^verbatim>\<open>None\<close>.\<close>

record caps =
  starts :: "nat \<Rightarrow> str"
  groups :: "nat \<Rightarrow> str option"

definition no_caps :: caps where
  "no_caps = \<lparr>starts = (\<lambda>n. []), groups = (\<lambda>n. None)\<rparr>"

definition open_group :: "nat \<Rightarrow> str \<Rightarrow> caps \<Rightarrow> caps" where
  "open_group n s c = c\<lparr>starts := (starts c)(n := s)\<rparr>"

definition close_group :: "nat \<Rightarrow> str \<Rightarrow> caps \<Rightarrow> caps" where
  "close_group n s c =
     c\<lparr>groups := (groups c)(n \<mapsto> take (length (starts c n) - length s) (starts c n))\<rparr>"

text \<open>\<open>matches rs s c\<close> matches the sequence \<open>rs\<close> at the start of \<open>s\<close>: the groups
  and the input left after the match, or \<open>None\<close> when no alternative matches.\<close>

function (sequential) matches :: "re list \<Rightarrow> str \<Rightarrow> caps \<Rightarrow> (caps \<times> str) option" where
  "matches [] s c = Some (c, s)"
| "matches (One k # rs) s c =
     (case s of
        [] \<Rightarrow> None
      | x # xs \<Rightarrow> if in_cls k x then matches rs xs c else None)"
| "matches (Star k # rs) s c =
     (case s of
        [] \<Rightarrow> matches rs s c
      | x # xs \<Rightarrow>
          if in_cls k x then
            (case matches (Star k # rs) xs c of
               Some r \<Rightarrow> Some r
             | None \<Rightarrow> matches rs s c)
          else matches rs s c)"
| "matches (Plus k # rs) s c =
     (case s of
        [] \<Rightarrow> None
      | x # xs \<Rightarrow> if in_cls k x then matches (Star k # rs) xs c else None)"
| "matches (PlusLazy k # rs) s c =
     (case s of
        [] \<Rightarrow> None
      | x # xs \<Rightarrow>
          if in_cls k x then
            (case matches rs xs c of
               Some r \<Rightarrow> Some r
             | None \<Rightarrow> matches (PlusLazy k # rs) xs c)
          else None)"
| "matches (Opt body # rs) s c =
     (case matches (body @ rs) s c of
        Some r \<Rightarrow> Some r
      | None \<Rightarrow> matches rs s c)"
| "matches (Open n # rs) s c = matches rs s (open_group n s c)"
| "matches (Close n # rs) s c = matches rs s (close_group n s c)"
  by pat_completeness auto
termination
  by (relation "measures [\<lambda>(rs, s, c). length s, \<lambda>(rs, s, c). sum_list (map re_size rs)]")
     auto

text \<open>\<^verbatim>\<open>re.match(pattern, line)\<close>: the groups of the match at the start of the line.\<close>

definition re_match :: "re list \<Rightarrow> str \<Rightarrow> (nat \<Rightarrow> str option) option" where
  "re_match rs line = map_option (\<lambda>r. groups (fst r)) (matches rs line no_caps)"

text \<open>The text of a group that took part in the match. The repair engine only reads the
  groups 2 and 3, which every match of its patterns sets.\<close>

definition group_text :: "(nat \<Rightarrow> str option) \<Rightarrow> nat \<Rightarrow> str" where
  "group_text m n = (case m n of Some s \<Rightarrow> s | None \<Rightarrow> [])"

text \<open>\<^verbatim>\<open>re.sub(pattern, repl, s)\<close> for a replacement without group references: from
  the left, each match is replaced and the search goes on after it; after an empty
  match one character is copied.\<close>

function re_sub :: "re list \<Rightarrow> str \<Rightarrow> str \<Rightarrow> str" where
  "re_sub rs repl s =
     (case matches rs s no_caps of
        Some (c, rest) \<Rightarrow>
          if length rest < length s then repl @ re_sub rs repl rest
          else (case s of [] \<Rightarrow> repl | x # xs \<Rightarrow> repl @ x # re_sub rs repl xs)
      | None \<Rightarrow> (case s of [] \<Rightarrow> [] | x # xs \<Rightarrow> x # re_sub rs repl xs))"
  by pat_completeness auto
termination
  by (relation "measure (\<lambda>(rs, repl, s). length s)") auto

declare re_sub.simps [simp del]

text \<open>A literal string as a pattern.\<close>

definition lits :: "string \<Rightarrow> re list" where
  "lits s = map (\<lambda>c. One (Lit (of_char c))) s"

section \<open>The repair engine (deduplicate\_project.py)\<close>

text \<open>The three patterns of \<^verbatim>\<open>deduplicate_project_file\<close>:
  \<^verbatim>\<open>(\s+)([A-F0-9]+)\s+/\*\s+(.+?)\s+\*/\s+=\s+\{isa\s+=\s+PBXFileReference;\<close>,
  \<^verbatim>\<open>(\s+)([A-F0-9]+)\s+/\*\s+(.+?)\s+(in\s+Sources)?\s*\*/\s+=\s+\{isa\s+=\s+PBXBuildFile;\<close>
  and \<^verbatim>\<open>(\s+)([A-F0-9]+)\s+/\*\s+(.+?)\s+in\s+Sources\s+\*/,?\<close>.\<close>

definition declaration_head :: "re list" where
  "declaration_head =
     [Open 1, Plus Space, Close 1, Open 2, Plus Hex, Close 2, Plus Space] @ lits ''/*''
     @ [Plus Space, Open 3, PlusLazy Dot, Close 3, Plus Space]"

definition isa_tail :: "string \<Rightarrow> re list" where
  "isa_tail isa =
     lits ''*/'' @ [Plus Space] @ lits ''='' @ [Plus Space] @ lits ''{isa'' @ [Plus Space]
     @ lits ''='' @ [Plus Space] @ lits isa"

definition fileref_re :: "re list" where
  "fileref_re = declaration_head @ isa_tail ''PBXFileReference;''"

definition buildfile_re :: "re list" where
  "buildfile_re =
     declaration_head
     @ [Opt ([Open 4] @ lits ''in'' @ [Plus Space] @ lits ''Sources'' @ [Close 4]), Star Space]
     @ isa_tail ''PBXBuildFile;''"

definition build_phase_re :: "re list" where
  "build_phase_re =
     declaration_head @ lits ''in'' @ [Plus Space] @ lits ''Sources'' @ [Plus Space]
     @ lits ''*/'' @ [Opt (lits '','')]"

text \<open>The pattern of the clean-up, \<^verbatim>\<open>\n\s*\n\s*\n\<close>.\<close>

definition blank_run_re :: "re list" where
  "blank_run_re = [One (Lit nl), Star Space, One (Lit nl), Star Space, One (Lit nl)]"

text \<open>The variables of the loop over the lines.\<close>

record dedup_state =
  seen_refs :: "str \<rightharpoonup> str"
  seen_build_refs :: "str \<rightharpoonup> str"
  duplicate_count :: nat
  new_lines :: "str list"

definition init_dedup :: dedup_state where
  "init_dedup = \<lparr>seen_refs = Map.empty, seen_build_refs = Map.empty,
                  duplicate_count = 0, new_lines = []\<rparr>"

text \<open>The body of the loop: a file reference or build file whose label is already seen
  is skipped and counted, a first one is recorded and kept; a line of the Sources phase
  is skipped and counted when its label is recorded for a build file under another
  identifier; every other line is kept.\<close>

definition process_line :: "dedup_state \<Rightarrow> str \<Rightarrow> dedup_state" where
  "process_line st line =
     (case re_match fileref_re line of
        Some m \<Rightarrow>
          (let ref_id = group_text m 2; filename = group_text m 3; key = strip filename in
           if seen_refs st key \<noteq> None then
             st\<lparr>duplicate_count := duplicate_count st + 1\<rparr>
           else
             st\<lparr>seen_refs := (seen_refs st)(key \<mapsto> ref_id),
                new_lines := new_lines st @ [line]\<rparr>)
      | None \<Rightarrow>
     (case re_match buildfile_re line of
        Some m \<Rightarrow>
          (let ref_id = group_text m 2; filename = group_text m 3; key = strip filename in
           if seen_build_refs st key \<noteq> None then
             st\<lparr>duplicate_count := duplicate_count st + 1\<rparr>
           else
             st\<lparr>seen_build_refs := (seen_build_refs st)(key \<mapsto> ref_id),
                new_lines := new_lines st @ [line]\<rparr>)
      | None \<Rightarrow>
     (case re_match build_phase_re line of
        Some m \<Rightarrow>
          (let ref_id = group_text m 2; filename = group_text m 3; key = strip filename in
           if seen_build_refs st key \<noteq> None \<and> seen_build_refs st key \<noteq> Some ref_id then
             st\<lparr>duplicate_count := duplicate_count st + 1\<rparr>
           else st\<lparr>new_lines := new_lines st @ [line]\<rparr>)
      | None \<Rightarrow> st\<lparr>new_lines := new_lines st @ [line]\<rparr>)))"

definition process_lines :: "dedup_state \<Rightarrow> str list \<Rightarrow> dedup_state" where
  "process_lines st lines = foldl process_line st lines"

text \<open>The part of \<^verbatim>\<open>deduplicate_project_file\<close> between reading and writing: the new
  content and the number of duplicates.\<close>

definition dedup_text :: "str \<Rightarrow> str \<times> nat" where
  "dedup_text content =
     (let st = process_lines init_dedup (split_on nl content);
          new_content = join_nl (new_lines st);
          new_content = re_sub blank_run_re [nl, nl] new_content
      in (new_content, duplicate_count st))"

text \<open>
  The files. A file system maps a path to the text of the file, as \<^verbatim>\<open>read\<close> returns
  it. Whether a write succeeds is the environment's choice: \<^verbatim>\<open>open\<close> may fail and
  leave the file as it is, or the write may fail after \<^verbatim>\<open>open\<close> has truncated the
  file and some characters have reached it. The journal lists the completed writes in
  their order.
\<close>

datatype write_outcome = WriteOk | OpenFails | WriteFails nat

record filesystem =
  stored :: "str \<rightharpoonup> str"
  on_write :: "str \<Rightarrow> write_outcome"
  journal :: "(str \<times> str) list"

definition write_file :: "filesystem \<Rightarrow> str \<Rightarrow> str \<Rightarrow> bool \<times> filesystem" where
  "write_file fs p t =
     (case on_write fs p of
        WriteOk \<Rightarrow> (True, fs\<lparr>stored := (stored fs)(p \<mapsto> t), journal := journal fs @ [(p, t)]\<rparr>)
      | OpenFails \<Rightarrow> (False, fs)
      | WriteFails k \<Rightarrow> (False, fs\<lparr>stored := (stored fs)(p \<mapsto> take k t)\<rparr>))"

text \<open>How a call ends: it returns a value or an exception leaves it.\<close>

datatype outcome = Returned bool | Raised

text \<open>\<^verbatim>\<open>deduplicate_project_file\<close>. A file that cannot be read makes it return
  \<^verbatim>\<open>False\<close>; the two writes are outside any \<^verbatim>\<open>try\<close>, so a failed write raises.\<close>

definition backup_path :: "str \<Rightarrow> str" where
  "backup_path file_path = file_path @ u ''.pre_dedup_backup''"

definition deduplicate_project_file :: "filesystem \<Rightarrow> str \<Rightarrow> outcome \<times> filesystem" where
  "deduplicate_project_file fs file_path =
     (case stored fs file_path of
        None \<Rightarrow> (Returned False, fs)
      | Some content \<Rightarrow>
          (case dedup_text content of (new_content, removed) \<Rightarrow>
           if removed > 0 then
             (case write_file fs (backup_path file_path) content of
                (False, fs) \<Rightarrow> (Raised, fs)
              | (True, fs) \<Rightarrow>
                  (case write_file fs file_path new_content of
                     (False, fs) \<Rightarrow> (Raised, fs)
                   | (True, fs) \<Rightarrow> (Returned True, fs)))
           else (Returned True, fs)))"

text \<open>A line that none of the three patterns matches.\<close>

definition unmatched :: "str \<Rightarrow> bool" where
  "unmatched l \<longleftrightarrow> re_match fileref_re l = None \<and> re_match buildfile_re l = None
     \<and> re_match build_phase_re l = None"

section \<open>Labels and duplicates\<close>

text \<open>The label of a line under each of the three patterns, with the identifier for the
  last two: the stripped text of group 3 and the text of group 2.\<close>

definition fileref_label :: "str \<Rightarrow> str option" where
  "fileref_label l = map_option (\<lambda>m. strip (group_text m 3)) (re_match fileref_re l)"

definition buildfile_entry :: "str \<Rightarrow> (str \<times> str) option" where
  "buildfile_entry l =
     map_option (\<lambda>m. (strip (group_text m 3), group_text m 2)) (re_match buildfile_re l)"

definition phase_entry :: "str \<Rightarrow> (str \<times> str) option" where
  "phase_entry l =
     map_option (\<lambda>m. (strip (group_text m 3), group_text m 2)) (re_match build_phase_re l)"

text \<open>A phase-membership line and a build file declaration that carry one label under
  two identifiers.\<close>

definition conflicting :: "str \<Rightarrow> str \<Rightarrow> bool" where
  "conflicting l l' =
     (case phase_entry l of
        None \<Rightarrow> False
      | Some (k, i) \<Rightarrow>
          (case buildfile_entry l' of
             None \<Rightarrow> False
           | Some (k', i') \<Rightarrow> k' = k \<and> i' \<noteq> i))"

text \<open>A text without duplicate labels: no two lines that match the file reference
  pattern have the same label, no two lines that match the build file pattern have the
  same label, and no line that matches the phase-membership pattern has the label of a
  line that matches the build file pattern under another identifier.\<close>

definition no_duplicate_labels :: "str \<Rightarrow> bool" where
  "no_duplicate_labels content =
     (let ls = split_on nl content in
      distinct (List.map_filter fileref_label ls)
      \<and> distinct (map fst (List.map_filter buildfile_entry ls))
      \<and> \<not> list_ex (\<lambda>l. list_ex (conflicting l) ls) ls)"

text \<open>The loop body as a function of the two dictionaries alone: whether the line is
  kept, and the dictionaries afterwards. \<open>scan_lines\<close> runs it over the lines and gives
  the lines kept, the number of lines skipped and the dictionaries at the end.\<close>

type_synonym seen = "(str \<rightharpoonup> str) \<times> (str \<rightharpoonup> str)"

definition line_step :: "seen \<Rightarrow> str \<Rightarrow> bool \<times> seen" where
  "line_step s l =
     (case s of (sr, sb) \<Rightarrow>
      (case re_match fileref_re l of
         Some m \<Rightarrow>
           if sr (strip (group_text m 3)) \<noteq> None then (False, sr, sb)
           else (True, sr(strip (group_text m 3) \<mapsto> group_text m 2), sb)
       | None \<Rightarrow>
      (case re_match buildfile_re l of
         Some m \<Rightarrow>
           if sb (strip (group_text m 3)) \<noteq> None then (False, sr, sb)
           else (True, sr, sb(strip (group_text m 3) \<mapsto> group_text m 2))
       | None \<Rightarrow>
      (case re_match build_phase_re l of
         Some m \<Rightarrow>
           if sb (strip (group_text m 3)) \<noteq> None
              \<and> sb (strip (group_text m 3)) \<noteq> Some (group_text m 2)
           then (False, sr, sb) else (True, sr, sb)
       | None \<Rightarrow> (True, sr, sb)))))"

fun scan_lines :: "seen \<Rightarrow> str list \<Rightarrow> str list \<times> nat \<times> seen" where
  "scan_lines s [] = ([], 0, s)"
| "scan_lines s (l # ls) =
     (case line_step s l of (keep, s') \<Rightarrow>
      (case scan_lines s' ls of (kept, n, s'') \<Rightarrow>
         if keep then (l # kept, n, s'') else (kept, Suc n, s'')))"

section \<open>Blank lines\<close>

text \<open>The number of newlines in the whitespace a text starts with.\<close>

fun ws_newlines :: "str \<Rightarrow> nat" where
  "ws_newlines [] = 0"
| "ws_newlines (c # cs) =
     (if isspace c then (if c = nl then 1 else 0) + ws_newlines cs else 0)"

text \<open>A run of two or more consecutive blank lines after a line break: a newline, then
  whitespace that holds at least two more newlines, so that between the first and the
  last of these newlines there are two or more lines of nothing but whitespace.\<close>

fun has_blank_run :: "str \<Rightarrow> bool" where
  "has_blank_run [] = False"
| "has_blank_run (c # cs) = ((c = nl \<and> 2 \<le> ws_newlines cs) \<or> has_blank_run cs)"

text \<open>What is left of a text after the last newline of the whitespace it starts with.\<close>

fun after_last_nl :: "str \<Rightarrow> str" where
  "after_last_nl [] = []"
| "after_last_nl (c # cs) = (if 0 < ws_newlines (c # cs) then after_last_nl cs else c # cs)"

text \<open>A blank line: nothing but whitespace.\<close>

definition blank :: "str \<Rightarrow> bool" where
  "blank l = list_all isspace l"


section \<open>Observations on the allocator and on the built manifest\<close>


text \<open>The identifier an object declaration line declares: its first token.\<close>

definition declared_id :: "str \<Rightarrow> str" where
  "declared_id line = takeWhile (\<lambda>c. \<not> isspace c) (dropWhile isspace line)"




section \<open>Scenarios\<close>



text \<open>The example repair: a file reference declaration labelled \<^verbatim>\<open>Utils.swift\<close>, for
  any indentation, identifier and attributes after the type; a manifest with two of them;
  the manifest expected after the repair; a file system that holds the manifest and
  accepts every write, and one that refuses every write.\<close>

definition utils_decl :: str where
  "utils_decl = u '' /* Utils.swift */ = {isa = PBXFileReference;''"

definition utils_line :: "str \<Rightarrow> str \<Rightarrow> str \<Rightarrow> str" where
  "utils_line indent ident rest = indent @ ident @ utils_decl @ rest"

definition sample_line1 :: str where
  \<open>sample_line1 = utils_line (tabs 2) (u ''AB0000000000000000002010'')
     (u '' lastKnownFileType = sourcecode.swift; path = "Core/Utils.swift"; sourceTree = "<group>"; };'')\<close>

definition sample_line2 :: str where
  \<open>sample_line2 = utils_line (tabs 2) (u ''AB0000000000000000002012'')
     (u '' lastKnownFileType = sourcecode.swift; path = "UI/Utils.swift"; sourceTree = "<group>"; };'')\<close>

definition sample_manifest :: str where
  "sample_manifest = join_nl
     [u ''/* Begin PBXFileReference section */'', sample_line1, sample_line2,
      u ''/* End PBXFileReference section */'', []]"

definition sample_repaired :: str where
  "sample_repaired = join_nl
     [u ''/* Begin PBXFileReference section */'', sample_line1,
      u ''/* End PBXFileReference section */'', []]"

definition sample_fs :: filesystem where
  "sample_fs = \<lparr>stored = [u ''project.pbxproj'' \<mapsto> sample_manifest],
                 on_write = (\<lambda>p. WriteOk), journal = []\<rparr>"




text \<open>A manifest without duplicates: one build file, its file reference and its
  membership in the Sources phase.\<close>

definition sample_build_line :: str where
  "sample_build_line = tabs 2 @ u ''AB0000000000000000002011 /* Utils.swift in Sources */ = {isa = PBXBuildFile; fileRef = AB0000000000000000002010 /* Utils.swift */; };''"

definition sample_phase_line :: str where
  "sample_phase_line = tabs 4 @ u ''AB0000000000000000002011 /* Utils.swift in Sources */,''"

definition sample_clean :: str where
  "sample_clean = join_nl
     [u ''/* Begin PBXBuildFile section */'', sample_build_line,
      u ''/* End PBXBuildFile section */'', sample_line1,
      tabs 3 @ u ''files = ('', sample_phase_line, tabs 3 @ u '');'', []]"

definition sample_clean_fs :: filesystem where
  "sample_clean_fs = \<lparr>stored = [u ''project.pbxproj'' \<mapsto> sample_clean],
                 on_write = (\<lambda>p. WriteOk), journal = []\<rparr>"

text \<open>A manifest whose one membership line carries the label of the one build file under
  another identifier, and a manifest that ends, after a blank line and a duplicate
  declaration, with a line of two spaces and no final newline.\<close>

definition sample_stale_build :: str where
  "sample_stale_build = tabs 2 @ u ''AB0000000000000000002011 /* Utils.swift */ = {isa = PBXBuildFile; fileRef = AB0000000000000000002010 /* Utils.swift */; };''"

definition sample_stale_phase :: str where
  "sample_stale_phase = tabs 4 @ u ''AB0000000000000000002099 /* Utils.swift in Sources */,''"

definition sample_stale :: str where
  "sample_stale = join_nl [sample_stale_build, sample_stale_phase]"

definition sample_stale_fs :: filesystem where
  "sample_stale_fs = \<lparr>stored = [u ''project.pbxproj'' \<mapsto> sample_stale],
                 on_write = (\<lambda>p. WriteOk), journal = []\<rparr>"


section \<open>Properties of the classifier\<close>

text \<open>
  Claim C10. The exclusion by file name is by substring containment: whatever the path,
  a file whose name contains one of the twelve excluded patterns anywhere in it is not
  included, also when the file lies under a directory of the main module.
\<close>

theorem C10_name_substring_excluded:
  assumes "pattern \<in> set excluded_patterns" and "sublist pattern file_name"
  shows "should_include_file file_path file_name = False"
proof -
  from assms have "list_ex (\<lambda>p. sublist p file_name) excluded_patterns"
    unfolding list_ex_iff by blast
  then show ?thesis
    unfolding should_include_file_def Let_def by simp
qed

theorem C10_name_substring_excluded_witness:
  "u ''Watch'' \<in> set excluded_patterns
   \<and> sublist (u ''Watch'') (u ''WatchlistView.swift'')
   \<and> should_include_file (u ''Core/WatchlistView.swift'') (u ''WatchlistView.swift'') = False"
proof -
  have h1: "u ''Watch'' \<in> set excluded_patterns"
    by (simp add: excluded_patterns_def)
  have h2: "sublist (u ''Watch'') (u ''WatchlistView.swift'')"
    by (simp add: u_def sublist_Cons_right)
  from h1 h2 C10_name_substring_excluded [OF h1 h2, of "u ''Core/WatchlistView.swift''"]
  show ?thesis by simp
qed

section \<open>Properties of the allocator and the graph builder\<close>

lemma generate_id_eq:
  "generate_id b = (id_string (id_counter b + 1), b\<lparr>id_counter := id_counter b + 1\<rparr>)"
  by (simp add: generate_id_def Let_def)


lemma add_file_source:
  "category f = u ''source'' \<Longrightarrow>
   add_file (b, s) f =
     (b\<lparr>id_counter := id_counter b + 2,
        file_refs := (file_refs b)(path f \<mapsto> id_string (id_counter b + 1))\<rparr>,
      s\<lparr>file_references := file_references s
           @ [file_reference_line (id_string (id_counter b + 1)) f],
        build_file_entries := build_file_entries s
           @ [build_file_line (id_string (id_counter b + 2)) (id_string (id_counter b + 1)) f
                (u ''Sources'')],
        source_build_files := source_build_files s
           @ [phase_member_line (id_string (id_counter b + 2)) f (u ''Sources'')]\<rparr>)"
  by (simp add: add_file_def generate_id_eq eval_nat_numeral)

lemma source_neq_resource: "u ''source'' \<noteq> u ''resource''"
  by (simp add: u_def)

lemma add_file_resource:
  "category f = u ''resource'' \<Longrightarrow>
   add_file (b, s) f =
     (b\<lparr>id_counter := id_counter b + 2,
        file_refs := (file_refs b)(path f \<mapsto> id_string (id_counter b + 1))\<rparr>,
      s\<lparr>file_references := file_references s
           @ [file_reference_line (id_string (id_counter b + 1)) f],
        build_file_entries := build_file_entries s
           @ [build_file_line (id_string (id_counter b + 2)) (id_string (id_counter b + 1)) f
                (u ''Resources'')],
        resource_build_files := resource_build_files s
           @ [phase_member_line (id_string (id_counter b + 2)) f (u ''Resources'')]\<rparr>)"
  using source_neq_resource by (simp add: add_file_def generate_id_eq eval_nat_numeral)

lemma add_file_other:
  "category f \<noteq> u ''source'' \<Longrightarrow> category f \<noteq> u ''resource'' \<Longrightarrow>
   add_file (b, s) f =
     (b\<lparr>id_counter := id_counter b + 1,
        file_refs := (file_refs b)(path f \<mapsto> id_string (id_counter b + 1))\<rparr>,
      s\<lparr>file_references := file_references s
           @ [file_reference_line (id_string (id_counter b + 1)) f]\<rparr>)"
  by (simp add: add_file_def generate_id_eq eval_nat_numeral)


lemma add_files_Cons: "add_files bs (f # fs) = add_files (add_file bs f) fs"
  by (simp add: add_files_def)

lemma add_files_Nil: "add_files bs [] = bs"
  by (simp add: add_files_def)

lemma add_file_cases:
  obtains (source) "category f = u ''source''"
  | (resource) "category f = u ''resource''" "category f \<noteq> u ''source''"
  | (other) "category f \<noteq> u ''source''" "category f \<noteq> u ''resource''"
  by blast

subsection \<open>The builder returns a manifest\<close>

lemma add_file_file_refs:
  "dom (file_refs (fst (add_file (b, s) f))) = insert (path f) (dom (file_refs b))"
  by (cases f rule: add_file_cases)
     (simp_all add: add_file_source add_file_resource add_file_other)

lemma add_files_file_refs:
  "dom (file_refs (fst (add_files (b, s) fs))) = dom (file_refs b) \<union> path ` set fs"
proof (induction fs arbitrary: b s)
  case Nil
  then show ?case by (simp add: add_files_Nil)
next
  case (Cons f fs)
  obtain b1 s1 where step: "add_file (b, s) f = (b1, s1)" by (cases "add_file (b, s) f")
  with add_file_file_refs [of b s f]
  have "dom (file_refs b1) = insert (path f) (dom (file_refs b))" by simp
  with Cons.IH [of b1 s1] step show ?case by (simp add: add_files_Cons)
qed

lemma build_file_children_returns:
  "path ` set fs \<subseteq> dom (file_refs b) \<Longrightarrow>
   \<exists>children. build_file_children b fs = Some children \<and> length children = length fs"
  by (induction fs) auto

lemma build_smart_project_returns:
  "\<exists>content b. build_smart_project b0 files = Some (content, b)"
proof -
  obtain i b s where sec: "build_sections b0 files = (i, b, s)"
    by (cases "build_sections b0 files")
  then have "b = fst (add_files (snd (generate_project_ids b0),
      \<lparr>file_references = [product_reference_line (main_product_id (fst (generate_project_ids b0)))],
       build_file_entries = [], source_build_files = [],
       resource_build_files = [], file_children = []\<rparr>) files)"
    by (auto simp: build_sections_def Let_def split: prod.splits)
  then have "path ` set files \<subseteq> dom (file_refs b)"
    using add_files_file_refs by blast
  from build_file_children_returns [OF this] sec show ?thesis
    by (auto simp: build_smart_project_def)
qed

subsection \<open>Formatting is injective\<close>









lemma hex_digit_nonspace: "d < 16 \<Longrightarrow> \<not> isspace (hex_digit d)"
  by (simp add: hex_digit_def isspace_def)

lemma to_hex_nonspace: "c \<in> set (to_hex n) \<Longrightarrow> \<not> isspace c"
proof (induction n rule: to_hex.induct)
  case (1 n)
  show ?case
  proof (cases "n < 16")
    case True
    with 1(2) show ?thesis by (simp add: to_hex.simps [of n] hex_digit_nonspace)
  next
    case False
    with 1 show ?thesis
      by (auto simp: to_hex.simps [of n] hex_digit_nonspace)
  qed
qed

lemma id_string_nonspace: "c \<in> set (id_string n) \<Longrightarrow> \<not> isspace c"
  by (auto simp: id_string_def format_022X_def u_def isspace_def dest: to_hex_nonspace)

lemma id_string_Cons: "\<exists>cs. id_string n = 65 # cs"
  by (simp add: id_string_def u_def)

lemma declared_id_line:
  "declared_id (tabs k @ id_string n @ 32 # rest) = id_string n"
proof -
  obtain cs where cs: "id_string n = 65 # cs" using id_string_Cons by blast
  have t: "\<forall>c \<in> set (tabs k). isspace c" by (simp add: tabs_def tab_def isspace_def)
  have a: "\<not> isspace 65" by (simp add: isspace_def)
  have "dropWhile isspace (tabs k @ id_string n @ 32 # rest) = id_string n @ 32 # rest"
    using t a by (simp add: dropWhile_append3 cs dropWhile_append)
  moreover have "takeWhile (\<lambda>c. \<not> isspace c) (id_string n @ 32 # rest) = id_string n"
    using id_string_nonspace [of _ n] by (simp add: takeWhile_append2 isspace_def takeWhile_tail)
  ultimately show ?thesis by (simp add: declared_id_def)
qed

lemma declared_id_file_reference_line [simp]:
  "declared_id (file_reference_line (id_string n) f) = id_string n"
  using declared_id_line [of 2 n]
  by (simp add: file_reference_line_def u_def)

lemma declared_id_build_file_line [simp]:
  "declared_id (build_file_line (id_string n) r f ph) = id_string n"
  using declared_id_line [of 2 n]
  by (simp add: build_file_line_def u_def)

lemma declared_id_product_reference_line [simp]:
  "declared_id (product_reference_line (id_string n)) = id_string n"
  using declared_id_line [of 2 n]
  by (simp add: product_reference_line_def u_def)


















lemma replicate_numeral_Cons: "replicate (numeral k) x = x # replicate (pred_numeral k) x"
  by (simp add: numeral_eq_Suc)









section \<open>Properties of the repair engine\<close>


lemma dedup_file_ok:
  assumes "stored fs file_path = Some content" and "0 < snd (dedup_text content)"
    and "on_write fs (backup_path file_path) = WriteOk" and "on_write fs file_path = WriteOk"
  shows "deduplicate_project_file fs file_path =
              (Returned True,
               fs\<lparr>stored := (stored fs)(backup_path file_path \<mapsto> content,
                                          file_path \<mapsto> fst (dedup_text content)),
                  journal := journal fs @ [(backup_path file_path, content),
                                           (file_path, fst (dedup_text content))]\<rparr>)"
  using assms
  by (cases "dedup_text content") (simp add: deduplicate_project_file_def write_file_def)




lemma matches_Star_run:
  "list_all (in_cls k) xs \<Longrightarrow> (case s of [] \<Rightarrow> True | y # ys \<Rightarrow> \<not> in_cls k y)
   \<Longrightarrow> matches rs s c = Some r \<Longrightarrow> matches (Star k # rs) (xs @ s) c = Some r"
proof (induction xs)
  case Nil
  then show ?case by (cases s) simp_all
next
  case (Cons x xs)
  then show ?case by simp
qed

lemma matches_Plus_run:
  "xs \<noteq> [] \<Longrightarrow> list_all (in_cls k) xs \<Longrightarrow> (case s of [] \<Rightarrow> True | y # ys \<Rightarrow> \<not> in_cls k y)
   \<Longrightarrow> matches rs s c = Some r \<Longrightarrow> matches (Plus k # rs) (xs @ s) c = Some r"
  using matches_Star_run [of k "tl xs" s rs c r] by (cases xs) simp_all

lemmas re_defs = fileref_re_def buildfile_re_def build_phase_re_def declaration_head_def
  isa_tail_def lits_def open_group_def close_group_def isspace_def nl_def u_def

lemma fileref_tail:
  "\<exists>c'. matches (drop 5 fileref_re) (utils_decl @ rest) c = Some (c', rest)
     \<and> groups c' 2 = Some (take (length (starts c 2) - length (utils_decl @ rest)) (starts c 2))
     \<and> groups c' 3 = Some (u ''Utils.swift'')"
  by (simp add: re_defs utils_decl_def)

lemma hex_not_space: "in_cls Hex x \<Longrightarrow> \<not> isspace x"
  by (auto simp: isspace_def)

lemma in_cls_Space: "in_cls Space = isspace"
  by (rule ext) simp

lemma fileref_re_unfold:
  "fileref_re = Open 1 # Plus Space # Close 1 # Open 2 # Plus Hex # drop 5 fileref_re"
  by (simp add: re_defs)

lemma utils_decl_Cons: "utils_decl @ rest = 32 # tl utils_decl @ rest"
  by (simp add: utils_decl_def u_def)

lemma fileref_match_utils:
  assumes "indent \<noteq> []" "list_all isspace indent" "ident \<noteq> []" "list_all (in_cls Hex) ident"
  shows "\<exists>m. re_match fileref_re (indent @ ident @ utils_decl @ rest) = Some m
           \<and> m 2 = Some ident \<and> m 3 = Some (u ''Utils.swift'')"
proof -
  let ?line = "indent @ ident @ utils_decl @ rest"
  let ?s1 = "ident @ utils_decl @ rest"
  let ?c1 = "open_group 1 ?line no_caps"
  let ?c2 = "open_group 2 ?s1 (close_group 1 ?s1 ?c1)"
  obtain c' where t: "matches (drop 5 fileref_re) (utils_decl @ rest) ?c2 = Some (c', rest)"
    and g2: "groups c' 2 = Some (take (length (starts ?c2 2) - length (utils_decl @ rest)) (starts ?c2 2))"
    and g3: "groups c' 3 = Some (u ''Utils.swift'')"
    using fileref_tail [of rest ?c2] by blast
  have "matches (Plus Hex # drop 5 fileref_re) ?s1 ?c2 = Some (c', rest)"
    using assms(3,4) t
    by (intro matches_Plus_run) (simp_all add: utils_decl_Cons [of rest])
  then have "matches (Close 1 # Open 2 # Plus Hex # drop 5 fileref_re) ?s1 ?c1 = Some (c', rest)"
    by simp
  moreover have "case ?s1 of [] \<Rightarrow> True | y # ys \<Rightarrow> \<not> in_cls Space y"
    using assms(3,4) hex_not_space by (cases ident) simp_all
  ultimately have "matches (Plus Space # Close 1 # Open 2 # Plus Hex # drop 5 fileref_re) ?line ?c1
      = Some (c', rest)"
    using assms(1,2) by (intro matches_Plus_run) (simp_all add: in_cls_Space)
  then have "matches fileref_re ?line no_caps = Some (c', rest)"
    by (subst fileref_re_unfold) simp
  moreover from g2 have "groups c' 2 = Some ident"
    by (simp add: open_group_def close_group_def)
  ultimately show ?thesis using g3 by (simp add: re_match_def)
qed

lemma strip_utils: "strip (u ''Utils.swift'') = u ''Utils.swift''"
  by (simp add: strip_def u_def isspace_def)

lemma process_line_utils:
  assumes "indent \<noteq> []" "list_all isspace indent" "ident \<noteq> []" "list_all (in_cls Hex) ident"
  shows "process_line st (indent @ ident @ utils_decl @ rest) =
     (if seen_refs st (u ''Utils.swift'') \<noteq> None
      then st\<lparr>duplicate_count := duplicate_count st + 1\<rparr>
      else st\<lparr>seen_refs := (seen_refs st)(u ''Utils.swift'' \<mapsto> ident),
              new_lines := new_lines st @ [indent @ ident @ utils_decl @ rest]\<rparr>)"
proof -
  obtain m where "re_match fileref_re (indent @ ident @ utils_decl @ rest) = Some m"
    "m 2 = Some ident" "m 3 = Some (u ''Utils.swift'')"
    using fileref_match_utils [OF assms] by blast
  then show ?thesis
    by (simp add: process_line_def group_text_def strip_utils)
qed

lemma process_line_unmatched:
  "unmatched l \<Longrightarrow> process_line st l = st\<lparr>new_lines := new_lines st @ [l]\<rparr>"
  by (simp add: process_line_def unmatched_def)

lemma process_lines_Nil: "process_lines st [] = st"
  by (simp add: process_lines_def)

lemma process_lines_Cons: "process_lines st (l # ls) = process_lines (process_line st l) ls"
  by (simp add: process_lines_def)

lemma process_lines_append:
  "process_lines st (a @ b) = process_lines (process_lines st a) b"
  by (simp add: process_lines_def)

lemma process_lines_unmatched:
  "\<forall>l \<in> set ls. unmatched l \<Longrightarrow> process_lines st ls = st\<lparr>new_lines := new_lines st @ ls\<rparr>"
proof (induction ls arbitrary: st)
  case Nil
  then show ?case by (simp add: process_lines_Nil)
next
  case (Cons l ls)
  then show ?case by (simp add: process_lines_Cons process_line_unmatched)
qed

lemma split_on_no_sep: "sep \<notin> set l \<Longrightarrow> split_on sep l = [l]"
  by (induction l) auto

lemma split_on_append_sep:
  "sep \<notin> set l \<Longrightarrow> split_on sep (l @ sep # t) = l # split_on sep t"
  by (induction l) auto

lemma split_join:
  "ls \<noteq> [] \<Longrightarrow> \<forall>l \<in> set ls. nl \<notin> set l \<Longrightarrow> split_on nl (join_nl ls) = ls"
proof (induction ls rule: join_nl.induct)
  case 1
  then show ?case by simp
next
  case (2 l)
  then show ?case by (simp add: split_on_no_sep)
next
  case (3 l l' ls)
  then show ?case by (simp add: split_on_append_sep)
qed

lemma hex_not_nl: "list_all (in_cls Hex) ident \<Longrightarrow> nl \<notin> set ident"
  by (auto simp: list_all_iff nl_def)

lemma utils_decl_no_nl: "nl \<notin> set utils_decl"
  by (simp add: utils_decl_def u_def nl_def)

lemma utils_duplicate_scan:
  assumes "indent1 \<noteq> []" "list_all isspace indent1" "nl \<notin> set indent1"
    and "id1 \<noteq> []" "list_all (in_cls Hex) id1" "nl \<notin> set rest1"
    and "indent2 \<noteq> []" "list_all isspace indent2" "nl \<notin> set indent2"
    and "id2 \<noteq> []" "list_all (in_cls Hex) id2" "nl \<notin> set rest2"
    and "\<forall>l \<in> set (pre @ mid @ post). unmatched l \<and> nl \<notin> set l"
    and "content = join_nl (pre @ [utils_line indent1 id1 rest1] @ mid
                            @ [utils_line indent2 id2 rest2] @ post)"
  shows "process_lines init_dedup (split_on nl content) =
           \<lparr>seen_refs = [u ''Utils.swift'' \<mapsto> id1], seen_build_refs = Map.empty,
            duplicate_count = 1,
            new_lines = pre @ [utils_line indent1 id1 rest1] @ mid @ post\<rparr>"
    and "dedup_text content =
           (re_sub blank_run_re [nl, nl]
              (join_nl (pre @ [utils_line indent1 id1 rest1] @ mid @ post)), 1)"
proof -
  let ?l1 = "utils_line indent1 id1 rest1" and ?l2 = "utils_line indent2 id2 rest2"
  let ?ls = "pre @ [?l1] @ mid @ [?l2] @ post"
  have no_nl: "\<forall>l \<in> set ?ls. nl \<notin> set l"
    using assms(3,5,6,9,11,12,13) hex_not_nl utils_decl_no_nl
    by (auto simp: utils_line_def)
  then have split: "split_on nl content = ?ls"
    unfolding assms(14) by (intro split_join) simp_all
  have u: "\<forall>l \<in> set pre. unmatched l" "\<forall>l \<in> set mid. unmatched l" "\<forall>l \<in> set post. unmatched l"
    using assms(13) by auto
  have p1: "process_line st ?l1 =
     (if seen_refs st (u ''Utils.swift'') \<noteq> None
      then st\<lparr>duplicate_count := duplicate_count st + 1\<rparr>
      else st\<lparr>seen_refs := (seen_refs st)(u ''Utils.swift'' \<mapsto> id1),
              new_lines := new_lines st @ [?l1]\<rparr>)" for st
    unfolding utils_line_def using assms(1,2,4,5) by (rule process_line_utils)
  have p2: "process_line st ?l2 =
     (if seen_refs st (u ''Utils.swift'') \<noteq> None
      then st\<lparr>duplicate_count := duplicate_count st + 1\<rparr>
      else st\<lparr>seen_refs := (seen_refs st)(u ''Utils.swift'' \<mapsto> id2),
              new_lines := new_lines st @ [?l2]\<rparr>)" for st
    unfolding utils_line_def using assms(7,8,10,11) by (rule process_line_utils)
  have run: "process_lines init_dedup ?ls =
           \<lparr>seen_refs = [u ''Utils.swift'' \<mapsto> id1], seen_build_refs = Map.empty,
            duplicate_count = 1, new_lines = pre @ [?l1] @ mid @ post\<rparr>"
    by (simp add: process_lines_append process_lines_Cons process_lines_Nil
        process_lines_unmatched [OF u(1)] process_lines_unmatched [OF u(2)]
        process_lines_unmatched [OF u(3)] p1 p2 init_dedup_def)
  with split show "process_lines init_dedup (split_on nl content) =
           \<lparr>seen_refs = [u ''Utils.swift'' \<mapsto> id1], seen_build_refs = Map.empty,
            duplicate_count = 1, new_lines = pre @ [?l1] @ mid @ post\<rparr>"
    by simp
  from run show "dedup_text content =
           (re_sub blank_run_re [nl, nl] (join_nl (pre @ [?l1] @ mid @ post)), 1)"
    by (simp add: dedup_text_def split)
qed




lemma unmatched_begin: "unmatched (u ''/* Begin PBXFileReference section */'')"
  by (simp add: unmatched_def re_match_def re_defs no_caps_def)

lemma unmatched_end: "unmatched (u ''/* End PBXFileReference section */'')"
  by (simp add: unmatched_def re_match_def re_defs no_caps_def)

lemma unmatched_empty: "unmatched []"
  by (simp add: unmatched_def re_match_def re_defs no_caps_def)

lemma sample_repaired_sub: "re_sub blank_run_re [nl, nl] sample_repaired = sample_repaired"
  by (simp add: sample_repaired_def sample_line1_def utils_line_def utils_decl_def tabs_def
      tab_def u_def nl_def blank_run_re_def re_sub.simps no_caps_def replicate_numeral_Cons
      isspace_def)

lemma sample_hyps:
  "tabs 2 \<noteq> []" "list_all isspace (tabs 2)" "nl \<notin> set (tabs 2)"
  "u ''AB0000000000000000002010'' \<noteq> []"
  "list_all (in_cls Hex) (u ''AB0000000000000000002010'')"
  "u ''AB0000000000000000002012'' \<noteq> []"
  "list_all (in_cls Hex) (u ''AB0000000000000000002012'')"
  \<open>nl \<notin> set (u '' lastKnownFileType = sourcecode.swift; path = "Core/Utils.swift"; sourceTree = "<group>"; };'')\<close>
  \<open>nl \<notin> set (u '' lastKnownFileType = sourcecode.swift; path = "UI/Utils.swift"; sourceTree = "<group>"; };'')\<close>
  by (simp_all add: tabs_def tab_def nl_def u_def isspace_def replicate_numeral_Cons)

lemma sample_others:
  "\<forall>l \<in> set ([u ''/* Begin PBXFileReference section */''] @ []
      @ [u ''/* End PBXFileReference section */'', []]). unmatched l \<and> nl \<notin> set l"
  using unmatched_begin unmatched_end unmatched_empty by (simp add: u_def nl_def)

lemma sample_content:
  "sample_manifest = join_nl ([u ''/* Begin PBXFileReference section */'']
     @ [utils_line (tabs 2) (u ''AB0000000000000000002010'')
     (u '' lastKnownFileType = sourcecode.swift; path = \"Core/Utils.swift\"; sourceTree = \"<group>\"; };'')]
     @ []
     @ [utils_line (tabs 2) (u ''AB0000000000000000002012'')
     (u '' lastKnownFileType = sourcecode.swift; path = \"UI/Utils.swift\"; sourceTree = \"<group>\"; };'')]
     @ [u ''/* End PBXFileReference section */'', []])"
  by (simp add: sample_manifest_def sample_line1_def sample_line2_def)



lemma dedup_sample: "dedup_text sample_manifest = (sample_repaired, 1)"
proof -
  have r: "join_nl ([u ''/* Begin PBXFileReference section */'']
     @ [utils_line (tabs 2) (u ''AB0000000000000000002010'')
     (u '' lastKnownFileType = sourcecode.swift; path = \"Core/Utils.swift\"; sourceTree = \"<group>\"; };'')]
     @ [] @ [u ''/* End PBXFileReference section */'', []]) = sample_repaired"
    by (simp add: sample_repaired_def sample_line1_def)
  from utils_duplicate_scan(2) [OF sample_hyps(1,2,3,4,5,8) sample_hyps(1,2,3,6,7,9)
      sample_others sample_content]
  show ?thesis unfolding r sample_repaired_sub .
qed


section \<open>The clean-up of blank lines\<close>

lemma isspace_nl: "isspace nl"
  by (simp add: isspace_def nl_def)

lemma after_last_nl_id: "ws_newlines s = 0 \<Longrightarrow> after_last_nl s = s"
  by (cases s) simp_all

lemma ws_newlines_after: "ws_newlines (after_last_nl s) = 0"
  by (induction s) (simp_all del: ws_newlines.simps, simp)

lemma length_after_last_nl: "length (after_last_nl s) \<le> length s"
  by (induction s) (simp_all del: ws_newlines.simps)

lemma matches_ws_nl:
  "matches [Star Space, One (Lit nl)] s c
     = (if 0 < ws_newlines s then Some (c, after_last_nl s) else None)"
proof (induction s)
  case Nil
  then show ?case by simp
next
  case (Cons x xs)
  show ?case
  proof (cases "isspace x")
    case False
    then have "x \<noteq> nl" using isspace_nl by auto
    with False show ?thesis by simp
  next
    case True
    show ?thesis
    proof (cases "0 < ws_newlines xs")
      case True
      with \<open>isspace x\<close> Cons show ?thesis by simp
    next
      case False
      with \<open>isspace x\<close> Cons show ?thesis by (simp add: after_last_nl_id)
    qed
  qed
qed

lemma matches_nl_ws_nl:
  "matches [One (Lit nl), Star Space, One (Lit nl)] s c
     = (case s of [] \<Rightarrow> None
        | x # xs \<Rightarrow> if x = nl \<and> 0 < ws_newlines xs then Some (c, after_last_nl xs) else None)"
  using matches_ws_nl by (cases s) simp_all

lemma matches_ws_nl_ws_nl:
  "matches [Star Space, One (Lit nl), Star Space, One (Lit nl)] s c
     = (if 2 \<le> ws_newlines s then Some (c, after_last_nl s) else None)"
proof (induction s)
  case Nil
  then show ?case by simp
next
  case (Cons x xs)
  show ?case
  proof (cases "isspace x")
    case False
    then have "x \<noteq> nl" using isspace_nl by auto
    with False show ?thesis by simp
  next
    case True
    show ?thesis
    proof (cases "2 \<le> ws_newlines xs")
      case True
      with \<open>isspace x\<close> Cons show ?thesis by simp
    next
      case False
      with \<open>isspace x\<close> Cons show ?thesis
        by (simp add: matches_nl_ws_nl del: matches.simps(2))
    qed
  qed
qed

lemma matches_blank_run:
  "matches blank_run_re s c
     = (case s of [] \<Rightarrow> None
        | x # xs \<Rightarrow> if x = nl \<and> 2 \<le> ws_newlines xs then Some (c, after_last_nl xs) else None)"
  using matches_ws_nl_ws_nl by (cases s) (simp_all add: blank_run_re_def)

lemma re_sub_blank_Nil: "re_sub blank_run_re r [] = []"
  by (simp add: re_sub.simps matches_blank_run)

lemma re_sub_blank_Cons:
  "re_sub blank_run_re r (x # xs) =
     (if x = nl \<and> 2 \<le> ws_newlines xs then r @ re_sub blank_run_re r (after_last_nl xs)
      else x # re_sub blank_run_re r xs)"
  using length_after_last_nl [of xs]
  by (subst re_sub.simps) (simp add: matches_blank_run less_Suc_eq_le)


lemma ws_newlines_re_sub:
  "ws_newlines (re_sub blank_run_re [nl, nl] t) \<le> ws_newlines t"
proof (induction t rule: length_induct)
  case (1 t)
  show ?case
  proof (cases t)
    case Nil
    then show ?thesis by (simp add: re_sub_blank_Nil)
  next
    case (Cons x xs)
    show ?thesis
    proof (cases "x = nl \<and> 2 \<le> ws_newlines xs")
      case True
      have "length (after_last_nl xs) < length t"
        using length_after_last_nl [of xs] Cons by simp
      with 1 have "ws_newlines (re_sub blank_run_re [nl, nl] (after_last_nl xs))
          \<le> ws_newlines (after_last_nl xs)" by blast
      with True Cons show ?thesis
        by (simp add: re_sub_blank_Cons ws_newlines_after isspace_nl)
    next
      case False
      from 1 Cons have "ws_newlines (re_sub blank_run_re [nl, nl] xs) \<le> ws_newlines xs"
        by simp
      with False Cons show ?thesis
        by (auto simp: re_sub_blank_Cons)
    qed
  qed
qed

lemma no_blank_run_re_sub: "\<not> has_blank_run (re_sub blank_run_re [nl, nl] t)"
proof (induction t rule: length_induct)
  case (1 t)
  show ?case
  proof (cases t)
    case Nil
    then show ?thesis by (simp add: re_sub_blank_Nil)
  next
    case (Cons x xs)
    show ?thesis
    proof (cases "x = nl \<and> 2 \<le> ws_newlines xs")
      case True
      have len: "length (after_last_nl xs) < length t"
        using length_after_last_nl [of xs] Cons by simp
      with 1 have ih: "\<not> has_blank_run (re_sub blank_run_re [nl, nl] (after_last_nl xs))"
        by blast
      have "ws_newlines (re_sub blank_run_re [nl, nl] (after_last_nl xs)) = 0"
        using ws_newlines_re_sub [of "after_last_nl xs"] by (simp add: ws_newlines_after)
      with True Cons ih show ?thesis
        by (simp add: re_sub_blank_Cons isspace_nl)
    next
      case False
      from 1 Cons have ih: "\<not> has_blank_run (re_sub blank_run_re [nl, nl] xs)" by simp
      have "ws_newlines (re_sub blank_run_re [nl, nl] xs) \<le> ws_newlines xs"
        by (rule ws_newlines_re_sub)
      with False Cons ih show ?thesis
        by (auto simp: re_sub_blank_Cons)
    qed
  qed
qed

lemma re_sub_blank_id: "\<not> has_blank_run t \<Longrightarrow> re_sub blank_run_re r t = t"
  by (induction t) (auto simp: re_sub_blank_Nil re_sub_blank_Cons)

lemma re_sub_blank_idem:
  "re_sub blank_run_re [nl, nl] (re_sub blank_run_re [nl, nl] t) = re_sub blank_run_re [nl, nl] t"
  by (rule re_sub_blank_id) (rule no_blank_run_re_sub)




subsection \<open>A run between two lines becomes one blank line\<close>








section \<open>The scan as a function of the dictionaries\<close>

lemma line_step_drop: "line_step s l = (False, s') \<Longrightarrow> s' = s"
  by (cases s) (auto simp: line_step_def split: option.splits if_splits)

lemma process_line_step:
  "process_line st l =
     (case line_step (seen_refs st, seen_build_refs st) l of
        (keep, sr, sb) \<Rightarrow>
          if keep then st\<lparr>seen_refs := sr, seen_build_refs := sb, new_lines := new_lines st @ [l]\<rparr>
          else st\<lparr>duplicate_count := duplicate_count st + 1\<rparr>)"
  by (simp add: process_line_def line_step_def Let_def split: option.splits)

lemma process_lines_scan:
  "process_lines st ls =
     (case scan_lines (seen_refs st, seen_build_refs st) ls of
        (kept, n, sr, sb) \<Rightarrow>
          st\<lparr>seen_refs := sr, seen_build_refs := sb,
             duplicate_count := duplicate_count st + n,
             new_lines := new_lines st @ kept\<rparr>)"
proof (induction ls arbitrary: st)
  case Nil
  then show ?case by (simp add: process_lines_Nil)
next
  case (Cons l ls)
  obtain keep sr sb where step: "line_step (seen_refs st, seen_build_refs st) l = (keep, sr, sb)"
    by (cases "line_step (seen_refs st, seen_build_refs st) l")
  show ?case
  proof (cases keep)
    case True
    with step show ?thesis
      by (simp add: process_lines_Cons process_line_step Cons.IH split: prod.splits)
  next
    case False
    with step have "line_step (seen_refs st, seen_build_refs st) l = (False, sr, sb)" by simp
    then have "(sr, sb) = (seen_refs st, seen_build_refs st)"
      by (rule line_step_drop)
    with False step show ?thesis
      by (simp add: process_lines_Cons process_line_step Cons.IH split: prod.splits)
  qed
qed

lemma dedup_text_scan:
  "dedup_text content =
     (re_sub blank_run_re [nl, nl]
        (join_nl (fst (scan_lines (Map.empty, Map.empty) (split_on nl content)))),
      fst (snd (scan_lines (Map.empty, Map.empty) (split_on nl content))))"
  by (simp add: dedup_text_def process_lines_scan init_dedup_def split: prod.splits)

lemma scan_lines_kept_again:
  "scan_lines s ls = (kept, n, s') \<Longrightarrow> scan_lines s kept = (kept, 0, s')"
proof (induction ls arbitrary: s kept n s')
  case Nil
  then show ?case by simp
next
  case (Cons l ls)
  obtain keep s1 where step: "line_step s l = (keep, s1)" by (cases "line_step s l")
  obtain kept1 n1 s2 where rest: "scan_lines s1 ls = (kept1, n1, s2)"
    by (cases "scan_lines s1 ls")
  show ?case
  proof (cases keep)
    case True
    with Cons.prems step rest have "kept = l # kept1" "s' = s2" by simp_all
    with Cons.IH [OF rest] step True show ?thesis by simp
  next
    case False
    with step have "line_step s l = (False, s1)" by simp
    then have "s1 = s" by (rule line_step_drop)
    with Cons.prems step rest False have "kept = kept1" "s' = s2" by simp_all
    with Cons.IH [OF rest] \<open>s1 = s\<close> show ?thesis by simp
  qed
qed

lemma scan_lines_none_skipped:
  "scan_lines s ls = (kept, 0, s') \<Longrightarrow> kept = ls"
proof (induction ls arbitrary: s kept)
  case Nil
  then show ?case by simp
next
  case (Cons l ls)
  then show ?case by (auto split: prod.splits if_splits)
qed

lemma scan_lines_subset: "scan_lines s ls = (kept, n, s') \<Longrightarrow> set kept \<subseteq> set ls"
proof (induction ls arbitrary: s kept n)
  case Nil
  then show ?case by simp
next
  case (Cons l ls)
  then show ?case by (fastforce split: prod.splits if_splits)
qed

lemma blank_no_hex_star:
  "list_all isspace s \<Longrightarrow> matches (Star Space # Close n # Open k # Plus Hex # rs) s c = None"
proof (induction s)
  case Nil
  then show ?case by simp
next
  case (Cons x xs)
  then have a: "in_cls Space x" "\<not> in_cls Hex x"
    and ih: "matches (Star Space # Close n # Open k # Plus Hex # rs) xs c = None"
    using hex_not_space by auto
  then show ?case by (simp del: in_cls.simps)
qed

lemma blank_no_declaration:
  "list_all isspace s \<Longrightarrow>
   matches (Open n # Plus Space # Close n # Open k # Plus Hex # rs) s c = None"
proof (cases s)
  case Nil
  then show ?thesis by simp
next
  case (Cons x xs)
  assume "list_all isspace s"
  with Cons have "in_cls Space x" "list_all isspace xs" by simp_all
  with Cons blank_no_hex_star [of xs n k rs] show ?thesis by (simp del: in_cls.simps)
qed

lemma buildfile_re_unfold:
  "buildfile_re = Open 1 # Plus Space # Close 1 # Open 2 # Plus Hex # drop 5 buildfile_re"
  by (simp add: re_defs)

lemma build_phase_re_unfold:
  "build_phase_re = Open 1 # Plus Space # Close 1 # Open 2 # Plus Hex # drop 5 build_phase_re"
  by (simp add: re_defs)

lemma blank_unmatched: "blank l \<Longrightarrow> unmatched l"
proof -
  assume "blank l"
  then have b: "list_all isspace l" by (simp add: blank_def)
  have "matches fileref_re l no_caps = None"
    by (subst fileref_re_unfold) (rule blank_no_declaration [OF b])
  moreover have "matches buildfile_re l no_caps = None"
    by (subst buildfile_re_unfold) (rule blank_no_declaration [OF b])
  moreover have "matches build_phase_re l no_caps = None"
    by (subst build_phase_re_unfold) (rule blank_no_declaration [OF b])
  ultimately show ?thesis by (simp add: unmatched_def re_match_def)
qed

lemma line_step_unmatched: "unmatched l \<Longrightarrow> line_step s l = (True, s)"
  by (cases s) (simp add: line_step_def unmatched_def)

lemma scan_lines_filter_blank:
  "scan_lines s ls = (kept, n, s') \<Longrightarrow>
   scan_lines s (filter (\<lambda>l. \<not> blank l) ls) = (filter (\<lambda>l. \<not> blank l) kept, n, s')"
proof (induction ls arbitrary: s kept n s')
  case Nil
  then show ?case by simp
next
  case (Cons l ls)
  obtain keep s1 where step: "line_step s l = (keep, s1)" by (cases "line_step s l")
  obtain kept1 n1 s2 where rest: "scan_lines s1 ls = (kept1, n1, s2)"
    by (cases "scan_lines s1 ls")
  note ih = Cons.IH [OF rest]
  show ?case
  proof (cases "blank l")
    case True
    then have "line_step s l = (True, s)"
      by (intro line_step_unmatched blank_unmatched)
    with step have "keep" "s1 = s" by simp_all
    with Cons.prems step rest ih True show ?thesis by auto
  next
    case False
    with Cons.prems step rest ih show ?thesis by (auto split: if_splits)
  qed
qed

lemma split_on_neq_Nil: "split_on sep t \<noteq> []"
  by (induction t) (auto split: list.splits)

lemma split_on_append:
  "split_on sep (a @ sep # b) = split_on sep a @ split_on sep b"
proof (induction a)
  case Nil
  then show ?case by simp
next
  case (Cons x a)
  then show ?case
    using split_on_neq_Nil [of sep a]
    by (cases "split_on sep a") auto
qed

lemma split_on_chars: "l \<in> set (split_on sep t) \<Longrightarrow> set l \<subseteq> set t \<and> sep \<notin> set l"
proof (induction t arbitrary: l)
  case Nil
  then show ?case by simp
next
  case (Cons x t)
  show ?case
  proof (cases "x = sep")
    case True
    with Cons show ?thesis by auto
  next
    case False
    obtain l0 ls0 where s: "split_on sep t = l0 # ls0"
      using split_on_neq_Nil [of sep t] by (cases "split_on sep t") auto
    with Cons.prems False have "l = x # l0 \<or> l \<in> set ls0" by simp
    with Cons.IH [of l0] Cons.IH [of l] s False show ?thesis by auto
  qed
qed

lemma join_nl_Cons_Cons: "join_nl ((c # l) # ls) = c # join_nl (l # ls)"
  by (cases ls) simp_all

lemma join_nl_Nil_Cons: "ls \<noteq> [] \<Longrightarrow> join_nl ([] # ls) = nl # join_nl ls"
  by (cases ls) simp_all

lemma join_split: "join_nl (split_on nl t) = t"
proof (induction t)
  case Nil
  then show ?case by simp
next
  case (Cons x t)
  obtain l0 ls0 where s: "split_on nl t = l0 # ls0"
    using split_on_neq_Nil [of nl t] by (cases "split_on nl t") auto
  with Cons show ?case
    by (simp add: join_nl_Cons_Cons join_nl_Nil_Cons del: join_nl.simps)
qed

lemma blank_split:
  "list_all isspace m \<Longrightarrow> filter (\<lambda>l. \<not> blank l) (split_on nl m) = []"
proof -
  assume m: "list_all isspace m"
  have "blank l" if "l \<in> set (split_on nl m)" for l
    using split_on_chars [OF that] m by (auto simp: blank_def list_all_iff)
  then show ?thesis by (simp add: filter_empty_conv)
qed

lemma after_last_nl_split:
  "0 < ws_newlines s \<Longrightarrow> \<exists>m. s = m @ nl # after_last_nl s \<and> list_all isspace m"
proof (induction s)
  case Nil
  then show ?case by simp
next
  case (Cons x xs)
  then have sp: "isspace x" by (auto split: if_splits)
  show ?case
  proof (cases "0 < ws_newlines xs")
    case True
    from Cons.IH [OF this] obtain m where "xs = m @ nl # after_last_nl xs" "list_all isspace m"
      by blast
    with sp Cons.prems show ?thesis
      by (intro exI [of _ "x # m"]) (simp del: ws_newlines.simps)
  next
    case False
    with Cons.prems sp have "x = nl" by (auto split: if_splits)
    with False Cons.prems show ?thesis
      by (intro exI [of _ "[]"]) (simp add: after_last_nl_id del: ws_newlines.simps)
  qed
qed

lemma nonblank_re_sub:
  "filter (\<lambda>l. \<not> blank l) (split_on nl (p @ re_sub blank_run_re [nl, nl] t))
   = filter (\<lambda>l. \<not> blank l) (split_on nl (p @ t))"
proof (induction t arbitrary: p rule: length_induct)
  case (1 t)
  show ?case
  proof (cases t)
    case Nil
    then show ?thesis by (simp add: re_sub_blank_Nil)
  next
    case (Cons x xs)
    show ?thesis
    proof (cases "x = nl \<and> 2 \<le> ws_newlines xs")
      case True
      let ?r = "after_last_nl xs"
      from True have "0 < ws_newlines xs" by simp
      from after_last_nl_split [OF this] obtain m where m: "xs = m @ nl # ?r" "list_all isspace m"
        by blast
      have "length ?r < length t" using length_after_last_nl [of xs] Cons by simp
      with 1 have ih: "filter (\<lambda>l. \<not> blank l) (split_on nl ([] @ re_sub blank_run_re [nl, nl] ?r))
          = filter (\<lambda>l. \<not> blank l) (split_on nl ([] @ ?r))" by blast
      have "p @ t = p @ nl # (m @ nl # ?r)" using Cons True m by simp
      then have a: "filter (\<lambda>l. \<not> blank l) (split_on nl (p @ t))
          = filter (\<lambda>l. \<not> blank l) (split_on nl p) @ filter (\<lambda>l. \<not> blank l) (split_on nl ?r)"
        by (simp only: split_on_append filter_append blank_split [OF m(2)]) simp
      have "p @ re_sub blank_run_re [nl, nl] t
          = p @ nl # ([] @ nl # re_sub blank_run_re [nl, nl] ?r)"
        using Cons True by (simp add: re_sub_blank_Cons)
      then have b: "filter (\<lambda>l. \<not> blank l) (split_on nl (p @ re_sub blank_run_re [nl, nl] t))
          = filter (\<lambda>l. \<not> blank l) (split_on nl p)
            @ filter (\<lambda>l. \<not> blank l) (split_on nl (re_sub blank_run_re [nl, nl] ?r))"
        by (simp only: split_on_append filter_append) (simp add: blank_def)
      from a b ih show ?thesis by simp
    next
      case False
      have "length xs < length t" using Cons by simp
      with 1 have "filter (\<lambda>l. \<not> blank l) (split_on nl ((p @ [x]) @ re_sub blank_run_re [nl, nl] xs))
          = filter (\<lambda>l. \<not> blank l) (split_on nl ((p @ [x]) @ xs))" by blast
      with False Cons show ?thesis by (auto simp: re_sub_blank_Cons)
    qed
  qed
qed

section \<open>Idempotence, blank runs and clean manifests\<close>

lemma nonblank_split_join:
  "\<forall>l \<in> set ls. nl \<notin> set l \<Longrightarrow>
   filter (\<lambda>l. \<not> blank l) (split_on nl (join_nl ls)) = filter (\<lambda>l. \<not> blank l) ls"
  by (cases "ls = []") (simp_all add: split_join blank_def)

lemma dedup_text_fixpoint:
  "dedup_text (fst (dedup_text content)) = (fst (dedup_text content), 0)"
proof -
  let ?s0 = "(Map.empty, Map.empty) :: seen"
  let ?nb = "filter (\<lambda>l. \<not> blank l)"
  obtain kept n f where scan: "scan_lines ?s0 (split_on nl content) = (kept, n, f)"
    by (cases "scan_lines ?s0 (split_on nl content)")
  define t2 where "t2 = re_sub blank_run_re [nl, nl] (join_nl kept)"
  have t2: "fst (dedup_text content) = t2"
    by (simp add: dedup_text_scan scan t2_def)
  have "\<forall>l \<in> set kept. nl \<notin> set l"
    using scan_lines_subset [OF scan] split_on_chars [of _ nl content] by blast
  then have "?nb (split_on nl (join_nl kept)) = ?nb kept"
    by (rule nonblank_split_join)
  moreover have "?nb (split_on nl t2) = ?nb (split_on nl (join_nl kept))"
    unfolding t2_def using nonblank_re_sub [of "[]"] by simp
  ultimately have nb: "?nb (split_on nl t2) = ?nb kept" by simp
  have "scan_lines ?s0 kept = (kept, 0, f)"
    using scan by (rule scan_lines_kept_again)
  then have k: "scan_lines ?s0 (?nb kept) = (?nb kept, 0, f)"
    by (rule scan_lines_filter_blank)
  obtain kept2 n2 f2 where scan2: "scan_lines ?s0 (split_on nl t2) = (kept2, n2, f2)"
    by (cases "scan_lines ?s0 (split_on nl t2)")
  from scan_lines_filter_blank [OF scan2] nb k have "n2 = 0" by simp
  with scan2 have "kept2 = split_on nl t2" by (intro scan_lines_none_skipped) simp
  with scan2 \<open>n2 = 0\<close> have "dedup_text t2 = (re_sub blank_run_re [nl, nl] t2, 0)"
    by (simp add: dedup_text_scan join_split)
  then have "dedup_text t2 = (t2, 0)"
    by (simp add: t2_def re_sub_blank_idem)
  with t2 show ?thesis by simp
qed

lemma dedup_file_clean:
  "stored fs file_path = Some content \<Longrightarrow> snd (dedup_text content) = 0 \<Longrightarrow>
   deduplicate_project_file fs file_path = (Returned True, fs)"
  by (cases "dedup_text content") (simp add: deduplicate_project_file_def)

text \<open>
  Claim C3. The repair is idempotent. The text a repair computes is a fixed point: a
  repair of it computes the same text and counts no duplicate. On the files, a second
  run after a first one whose writes succeeded returns \<^verbatim>\<open>True\<close> and leaves every
  file, the backup included, as the first run left it.
\<close>

theorem C3_repair_idempotent:
  "dedup_text (fst (dedup_text content)) = (fst (dedup_text content), 0)
   \<and> (stored fs file_path = Some content \<longrightarrow>
        on_write fs (backup_path file_path) = WriteOk \<longrightarrow> on_write fs file_path = WriteOk \<longrightarrow>
        deduplicate_project_file (snd (deduplicate_project_file fs file_path)) file_path
          = (Returned True, snd (deduplicate_project_file fs file_path)))"
proof (intro conjI impI)
  show "dedup_text (fst (dedup_text content)) = (fst (dedup_text content), 0)"
    by (rule dedup_text_fixpoint)
next
  assume s: "stored fs file_path = Some content"
    and w: "on_write fs (backup_path file_path) = WriteOk" "on_write fs file_path = WriteOk"
  show "deduplicate_project_file (snd (deduplicate_project_file fs file_path)) file_path
          = (Returned True, snd (deduplicate_project_file fs file_path))"
  proof (cases "snd (dedup_text content) = 0")
    case True
    with s show ?thesis by (simp add: dedup_file_clean)
  next
    case False
    then have "0 < snd (dedup_text content)" by simp
    note first = dedup_file_ok [OF s this w]
    have "stored (snd (deduplicate_project_file fs file_path)) file_path
        = Some (fst (dedup_text content))"
      by (simp add: first)
    moreover have "snd (dedup_text (fst (dedup_text content))) = 0"
      by (simp add: dedup_text_fixpoint)
    ultimately show ?thesis by (rule dedup_file_clean)
  qed
qed


lemma map_filter_append: "List.map_filter f (a @ b) = List.map_filter f a @ List.map_filter f b"
  by (simp add: List.map_filter_def)

lemma map_filter_single: "List.map_filter f [x] = (case f x of None \<Rightarrow> [] | Some y \<Rightarrow> [y])"
  by (simp add: List.map_filter_def split: option.splits)

lemma map_filter_mem: "y \<in> set (List.map_filter f xs) \<longleftrightarrow> (\<exists>x \<in> set xs. f x = Some y)"
  by (induction xs) (auto simp: List.map_filter_def)

lemma scan_lines_clean:
  assumes "distinct (List.map_filter fileref_label (done @ ls))"
    and "distinct (map fst (List.map_filter buildfile_entry (done @ ls)))"
    and "\<forall>l \<in> set ls. \<forall>l' \<in> set (done @ ls). \<not> conflicting l l'"
    and "\<forall>k. sr k \<noteq> None \<longrightarrow> k \<in> set (List.map_filter fileref_label done)"
    and "\<forall>k i. sb k = Some i \<longrightarrow> (k, i) \<in> set (List.map_filter buildfile_entry done)"
  shows "\<exists>s'. scan_lines (sr, sb) ls = (ls, 0, s')"
  using assms
proof (induction ls arbitrary: sr sb "done")
  case Nil
  then show ?case by simp
next
  case (Cons l ls)
  have step: "\<exists>sr' sb'. line_step (sr, sb) l = (True, sr', sb')
      \<and> (\<forall>k. sr' k \<noteq> None \<longrightarrow> k \<in> set (List.map_filter fileref_label (done @ [l])))
      \<and> (\<forall>k i. sb' k = Some i \<longrightarrow> (k, i) \<in> set (List.map_filter buildfile_entry (done @ [l])))"
  proof (cases "re_match fileref_re l")
    case (Some m)
    let ?key = "strip (group_text m 3)"
    from Some have lab: "fileref_label l = Some ?key" by (simp add: fileref_label_def)
    have "sr ?key = None"
    proof (rule ccontr)
      assume "sr ?key \<noteq> None"
      with Cons.prems(4) have "?key \<in> set (List.map_filter fileref_label done)" by blast
      with Cons.prems(1) lab show False
        by (simp add: map_filter_append map_filter_single [of _ l]
            List.map_filter_simps)
    qed
    with Some lab Cons.prems(4,5) show ?thesis
      by (auto simp: line_step_def map_filter_append map_filter_single)
  next
    case None
    note no_ref = None
    show ?thesis
    proof (cases "re_match buildfile_re l")
      case (Some m)
      let ?key = "strip (group_text m 3)"
      from Some have ent: "buildfile_entry l = Some (?key, group_text m 2)"
        by (simp add: buildfile_entry_def)
      have "sb ?key = None"
      proof (rule ccontr)
        assume "sb ?key \<noteq> None"
        then obtain i where "sb ?key = Some i" by blast
        with Cons.prems(5) have "(?key, i) \<in> set (List.map_filter buildfile_entry done)" by blast
        then have "?key \<in> fst ` set (List.map_filter buildfile_entry done)" by force
        with Cons.prems(2) ent show False
          by (simp add: map_filter_append List.map_filter_simps)
      qed
      with Some no_ref ent Cons.prems(4,5) show ?thesis
        by (auto simp: line_step_def map_filter_append map_filter_single)
    next
      case None
      note no_build = None
      show ?thesis
      proof (cases "re_match build_phase_re l")
        case (Some m)
        let ?key = "strip (group_text m 3)"
        from Some have ph: "phase_entry l = Some (?key, group_text m 2)"
          by (simp add: phase_entry_def)
        have "\<not> (sb ?key \<noteq> None \<and> sb ?key \<noteq> Some (group_text m 2))"
        proof
          assume "sb ?key \<noteq> None \<and> sb ?key \<noteq> Some (group_text m 2)"
          then obtain i where i: "sb ?key = Some i" "i \<noteq> group_text m 2" by auto
          with Cons.prems(5) have "(?key, i) \<in> set (List.map_filter buildfile_entry done)"
            by blast
          then obtain l' where l': "l' \<in> set done" "buildfile_entry l' = Some (?key, i)"
            by (auto simp: map_filter_mem)
          with ph i have "conflicting l l'" by (simp add: conflicting_def)
          with Cons.prems(3) l'(1) show False by auto
        qed
        with Some no_ref no_build Cons.prems(4,5) show ?thesis
          by (auto simp: line_step_def map_filter_append)
      next
        case None
        with no_ref no_build Cons.prems(4,5) show ?thesis
          by (auto simp: line_step_def map_filter_append)
      qed
    qed
  qed
  then obtain sr' sb' where s: "line_step (sr, sb) l = (True, sr', sb')"
    and i1: "\<forall>k. sr' k \<noteq> None \<longrightarrow> k \<in> set (List.map_filter fileref_label (done @ [l]))"
    and i2: "\<forall>k i. sb' k = Some i \<longrightarrow> (k, i) \<in> set (List.map_filter buildfile_entry (done @ [l]))"
    by blast
  have "\<exists>s'. scan_lines (sr', sb') ls = (ls, 0, s')"
  proof (rule Cons.IH [of "done @ [l]"])
    show "distinct (List.map_filter fileref_label ((done @ [l]) @ ls))"
      using Cons.prems(1) by simp
    show "distinct (map fst (List.map_filter buildfile_entry ((done @ [l]) @ ls)))"
      using Cons.prems(2) by simp
    show "\<forall>x \<in> set ls. \<forall>l' \<in> set ((done @ [l]) @ ls). \<not> conflicting x l'"
      using Cons.prems(3) by simp
  qed (use i1 i2 in auto)
  with s show ?case by auto
qed

lemma no_duplicates_none_skipped:
  assumes "no_duplicate_labels content"
  shows "snd (dedup_text content) = 0"
proof -
  let ?ls = "split_on nl content"
  from assms have "distinct (List.map_filter fileref_label ([] @ ?ls))"
    and "distinct (map fst (List.map_filter buildfile_entry ([] @ ?ls)))"
    and "\<forall>l \<in> set ?ls. \<forall>l' \<in> set ([] @ ?ls). \<not> conflicting l l'"
    by (simp_all add: no_duplicate_labels_def Let_def list_ex_iff)
  from scan_lines_clean [OF this, of Map.empty Map.empty]
  obtain s' where "scan_lines (Map.empty, Map.empty) ?ls = (?ls, 0, s')" by auto
  then show ?thesis by (simp add: dedup_text_scan)
qed

text \<open>
  Claim C2, amended. When no two file reference declarations share a label, no two
  build file declarations share a label, and no membership line of the Sources phase
  carries the label of a build file declaration under another identifier, the repair
  counts no duplicate, returns \<^verbatim>\<open>True\<close> and leaves the file system as it is: no
  backup, no write.
\<close>

theorem C2_clean_manifest_untouched:
  assumes "no_duplicate_labels content" and "stored fs file_path = Some content"
  shows "snd (dedup_text content) = 0
       \<and> deduplicate_project_file fs file_path = (Returned True, fs)"
  using no_duplicates_none_skipped [OF assms(1)] dedup_file_clean [OF assms(2)] by simp

lemmas sample_defs = sample_line1_def sample_line2_def utils_line_def utils_decl_def tabs_def
  tab_def u_def nl_def replicate_numeral_Cons isspace_def










theorem C3_repair_idempotent_witness:
  "fst (dedup_text sample_manifest) = sample_repaired
   \<and> dedup_text sample_repaired = (sample_repaired, 0)
   \<and> deduplicate_project_file
        (snd (deduplicate_project_file sample_fs (u ''project.pbxproj''))) (u ''project.pbxproj'')
       = (Returned True, snd (deduplicate_project_file sample_fs (u ''project.pbxproj'')))"
proof -
  have s: "stored sample_fs (u ''project.pbxproj'') = Some sample_manifest"
    and w: "on_write sample_fs (backup_path (u ''project.pbxproj'')) = WriteOk"
      "on_write sample_fs (u ''project.pbxproj'') = WriteOk"
    by (simp_all add: sample_fs_def)
  from C3_repair_idempotent [of sample_manifest sample_fs "u ''project.pbxproj''"] s w
  show ?thesis by (simp add: dedup_sample)
qed

lemmas label_defs = fileref_label_def buildfile_entry_def phase_entry_def re_match_def re_defs
  no_caps_def group_text_def strip_def

lemma sample_clean_lines:
  "split_on nl sample_clean =
     [u ''/* Begin PBXBuildFile section */'', sample_build_line,
      u ''/* End PBXBuildFile section */'', sample_line1,
      tabs 3 @ u ''files = ('', sample_phase_line, tabs 3 @ u '');'', []]"
  unfolding sample_clean_def
  by (rule split_join) (simp_all add: sample_defs sample_build_line_def sample_phase_line_def)

lemma sample_labels:
  "fileref_label sample_line1 = Some (u ''Utils.swift'')"
  "buildfile_entry sample_line1 = None"
  "phase_entry sample_line1 = None"
  "fileref_label sample_build_line = None"
  "buildfile_entry sample_build_line = Some (u ''Utils.swift'', u ''AB0000000000000000002011'')"
  "phase_entry sample_build_line = Some (u ''Utils.swift'', u ''AB0000000000000000002011'')"
  "fileref_label sample_phase_line = None"
  "buildfile_entry sample_phase_line = None"
  "phase_entry sample_phase_line = Some (u ''Utils.swift'', u ''AB0000000000000000002011'')"
  by (simp_all add: label_defs sample_defs sample_build_line_def sample_phase_line_def)


lemma sample_plain_labels:
  "fileref_label (u ''/* Begin PBXBuildFile section */'') = None"
  "buildfile_entry (u ''/* Begin PBXBuildFile section */'') = None"
  "phase_entry (u ''/* Begin PBXBuildFile section */'') = None"
  "fileref_label (u ''/* End PBXBuildFile section */'') = None"
  "buildfile_entry (u ''/* End PBXBuildFile section */'') = None"
  "phase_entry (u ''/* End PBXBuildFile section */'') = None"
  "fileref_label (tabs 3 @ u ''files = ('') = None"
  "buildfile_entry (tabs 3 @ u ''files = ('') = None"
  "phase_entry (tabs 3 @ u ''files = ('') = None"
  "fileref_label (tabs 3 @ u '');'') = None"
  "buildfile_entry (tabs 3 @ u '');'') = None"
  "phase_entry (tabs 3 @ u '');'') = None"
  "fileref_label [] = None"
  "buildfile_entry [] = None"
  "phase_entry [] = None"
  by (simp_all add: label_defs sample_defs)

lemma sample_clean_no_duplicates: "no_duplicate_labels sample_clean"
  unfolding no_duplicate_labels_def sample_clean_lines Let_def
  by (simp add: List.map_filter_simps sample_labels sample_plain_labels conflicting_def)

theorem C2_clean_manifest_untouched_witness:
  "no_duplicate_labels sample_clean
   \<and> stored sample_clean_fs (u ''project.pbxproj'') = Some sample_clean
   \<and> snd (dedup_text sample_clean) = 0
   \<and> deduplicate_project_file sample_clean_fs (u ''project.pbxproj'')
       = (Returned True, sample_clean_fs)"
proof -
  have s: "stored sample_clean_fs (u ''project.pbxproj'') = Some sample_clean"
    by (simp add: sample_clean_fs_def)
  from C2_clean_manifest_untouched [OF sample_clean_no_duplicates s] s
    sample_clean_no_duplicates
  show ?thesis by simp
qed

lemma sample_stale_lines: "split_on nl sample_stale = [sample_stale_build, sample_stale_phase]"
  unfolding sample_stale_def
  by (rule split_join) (simp_all add: sample_defs sample_stale_build_def sample_stale_phase_def)

lemma sample_stale_labels:
  "fileref_label sample_stale_build = None"
  "buildfile_entry sample_stale_build = Some (u ''Utils.swift'', u ''AB0000000000000000002011'')"
  "phase_entry sample_stale_build = None"
  "fileref_label sample_stale_phase = None"
  "buildfile_entry sample_stale_phase = None"
  "phase_entry sample_stale_phase = Some (u ''Utils.swift'', u ''AB0000000000000000002099'')"
  by (simp_all add: label_defs sample_defs sample_stale_build_def sample_stale_phase_def)

lemma line_step_labels:
  "line_step (sr, sb) l =
     (case fileref_label l of
        Some k \<Rightarrow> if sr k \<noteq> None then (False, sr, sb)
                  else (True, sr(k \<mapsto> group_text (the (re_match fileref_re l)) 2), sb)
      | None \<Rightarrow>
     (case buildfile_entry l of
        Some (k, i) \<Rightarrow> if sb k \<noteq> None then (False, sr, sb) else (True, sr, sb(k \<mapsto> i))
      | None \<Rightarrow>
     (case phase_entry l of
        Some (k, i) \<Rightarrow> if sb k \<noteq> None \<and> sb k \<noteq> Some i then (False, sr, sb) else (True, sr, sb)
      | None \<Rightarrow> (True, sr, sb))))"
  by (simp add: line_step_def fileref_label_def buildfile_entry_def phase_entry_def
      split: option.splits)

lemma dedup_sample_stale: "dedup_text sample_stale = (sample_stale_build, 1)"
proof -
  have "scan_lines (Map.empty, Map.empty) [sample_stale_build, sample_stale_phase]
      = ([sample_stale_build], 1,
         Map.empty, [u ''Utils.swift'' \<mapsto> u ''AB0000000000000000002011''])"
    by (simp add: line_step_labels sample_stale_labels u_def)
  moreover have "re_sub blank_run_re [nl, nl] sample_stale_build = sample_stale_build"
    by (simp add: sample_stale_build_def sample_defs re_sub_blank_Cons re_sub_blank_Nil)
  ultimately show ?thesis
    by (simp add: dedup_text_scan sample_stale_lines)
qed

text \<open>
  Claim C2, as stated, fails on the code. In \<open>sample_stale\<close> no pattern has two lines with
  one label: there is no file reference, one build file and one membership line. The
  membership line carries the label of the build file under another identifier, so the
  repair drops it, counts one duplicate, writes a backup and rewrites the manifest.
\<close>

theorem C2_stale_membership_counterexample:
  "List.map_filter fileref_label (split_on nl sample_stale) = []
   \<and> map fst (List.map_filter buildfile_entry (split_on nl sample_stale)) = [u ''Utils.swift'']
   \<and> map fst (List.map_filter phase_entry (split_on nl sample_stale)) = [u ''Utils.swift'']
   \<and> dedup_text sample_stale = (sample_stale_build, 1)
   \<and> journal (snd (deduplicate_project_file sample_stale_fs (u ''project.pbxproj''))) =
       [(backup_path (u ''project.pbxproj''), sample_stale),
        (u ''project.pbxproj'', sample_stale_build)]"
proof -
  have s: "stored sample_stale_fs (u ''project.pbxproj'') = Some sample_stale"
    and w: "on_write sample_stale_fs (backup_path (u ''project.pbxproj'')) = WriteOk"
      "on_write sample_stale_fs (u ''project.pbxproj'') = WriteOk"
    by (simp_all add: sample_stale_fs_def)
  have p: "0 < snd (dedup_text sample_stale)" by (simp add: dedup_sample_stale)
  have "journal (snd (deduplicate_project_file sample_stale_fs (u ''project.pbxproj''))) =
       [(backup_path (u ''project.pbxproj''), sample_stale),
        (u ''project.pbxproj'', sample_stale_build)]"
    using dedup_file_ok [OF s p w] by (simp add: dedup_sample_stale sample_stale_fs_def)
  then show ?thesis
    by (simp add: sample_stale_lines List.map_filter_simps sample_stale_labels dedup_sample_stale)
qed










end
